theory Spec2Isabelle
  imports Complex_Main "HOL-Library.Product_Lexorder" "HOL-Library.Multiset"
begin

section \<open>Python primitives used by the evaluators\<close>

text \<open>
  Scores and probabilities are Python floats in the source; they are modelled as real
  numbers, so every statement below is about the exact arithmetic the code writes down.

  A text is a list of 8-bit characters, each standing for one code point: the 256 code
  points of the Windows-1252 code page (the unassigned five read as the control codes of
  the same number). These are the characters of ASCII and Latin-1 above \<open>0x9F\<close>, and
  between \<open>0x80\<close> and \<open>0x9F\<close> among others the bullet U+2022 that the interview
  evaluator splits descriptions at. The character classes below are Python's
  \<open>str.isspace\<close>, \<^verbatim>\<open>\d\<close>, \<^verbatim>\<open>\w\<close> and \<open>str.lower\<close> on those code points.
\<close>

definition bullet :: char where
  "bullet = CHR 0x95"

definition is_space :: "char \<Rightarrow> bool" where
  "is_space c = (let n = (of_char c :: nat)
                 in (9 \<le> n \<and> n \<le> 13) \<or> (28 \<le> n \<and> n \<le> 32) \<or> n = 160)"

definition is_digit :: "char \<Rightarrow> bool" where
  "is_digit c = (let n = (of_char c :: nat) in 48 \<le> n \<and> n \<le> 57)"

definition is_word :: "char \<Rightarrow> bool" where
  "is_word c = (let n = (of_char c :: nat)
                in (48 \<le> n \<and> n \<le> 57) \<or> (65 \<le> n \<and> n \<le> 90) \<or> n = 95
                   \<or> (97 \<le> n \<and> n \<le> 122) \<or> n = 131 \<or> n = 136 \<or> n = 138 \<or> n = 140
                   \<or> n = 142 \<or> n = 154 \<or> n = 156 \<or> n = 158 \<or> n = 159 \<or> n = 170
                   \<or> n = 178 \<or> n = 179 \<or> n = 181 \<or> n = 185 \<or> n = 186
                   \<or> (188 \<le> n \<and> n \<le> 190) \<or> (192 \<le> n \<and> n \<le> 214)
                   \<or> (216 \<le> n \<and> n \<le> 246) \<or> 248 \<le> n)"

definition lower_char :: "char \<Rightarrow> char" where
  "lower_char c = (let n = (of_char c :: nat)
                   in if (65 \<le> n \<and> n \<le> 90) \<or> (192 \<le> n \<and> n \<le> 214) \<or> (216 \<le> n \<and> n \<le> 222)
                      then char_of (n + 32)
                      else if n = 138 \<or> n = 140 \<or> n = 142 then char_of (n + 16)
                      else if n = 159 then char_of (255 :: nat)
                      else c)"

definition lower :: "string \<Rightarrow> string" where
  "lower s = map lower_char s"

definition strip :: "string \<Rightarrow> string" where
  "strip s = rev (dropWhile is_space (rev (dropWhile is_space s)))"

text \<open>\<open>str.split()\<close> with no argument: the maximal runs of non-whitespace characters.\<close>

fun split_words :: "string \<Rightarrow> string \<Rightarrow> string list" where
  "split_words cur [] = (if cur = [] then [] else [rev cur])"
| "split_words cur (c # cs) =
     (if is_space c then (if cur = [] then split_words [] cs else rev cur # split_words [] cs)
      else split_words (c # cur) cs)"

definition py_split :: "string \<Rightarrow> string list" where
  "py_split s = split_words [] s"

fun starts_with :: "string \<Rightarrow> string \<Rightarrow> bool" where
  "starts_with [] s = True"
| "starts_with (p # ps) [] = False"
| "starts_with (p # ps) (c # cs) = (p = c \<and> starts_with ps cs)"

text \<open>\<open>sub in s\<close> on strings.\<close>

fun contains :: "string \<Rightarrow> string \<Rightarrow> bool" where
  "contains sub [] = (sub = [])"
| "contains sub (c # cs) = (starts_with sub (c # cs) \<or> contains sub cs)"

fun join :: "string \<Rightarrow> string list \<Rightarrow> string" where
  "join sep [] = []"
| "join sep [x] = x"
| "join sep (x # y # ys) = x @ sep @ join sep (y # ys)"

fun str_nat :: "nat \<Rightarrow> string" where
  "str_nat n = (if n < 10 then [char_of (48 + n)]
                else str_nat (n div 10) @ [char_of (48 + n mod 10)])"

declare str_nat.simps [simp del]

text \<open>\<open>round(x, 2)\<close>: to the nearest hundredth, a tie going to the even neighbour.\<close>

definition round2 :: "real \<Rightarrow> real" where
  "round2 x = (let y = x * 100; f = \<lfloor>y\<rfloor>; d = y - of_int f
               in (if d < 1 / 2 then of_int f
                   else if 1 / 2 < d then of_int (f + 1)
                   else if even f then of_int f else of_int (f + 1)) / 100)"

text \<open>The values a \<open>Dict[str, Any]\<close> entry of a parsed document can hold.\<close>

datatype jval = VNone | VBool bool | VInt int | VStr string | VList "jval list"

fun truthy :: "jval \<Rightarrow> bool" where
  "truthy VNone = False"
| "truthy (VBool b) = b"
| "truthy (VInt i) = (i \<noteq> 0)"
| "truthy (VStr s) = (s \<noteq> [])"
| "truthy (VList vs) = (vs \<noteq> [])"

type_synonym pydict = "string \<Rightarrow> jval option"

definition dict_get :: "pydict \<Rightarrow> string \<Rightarrow> jval \<Rightarrow> jval" where
  "dict_get d k dflt = (case d k of None \<Rightarrow> dflt | Some v \<Rightarrow> v)"

section \<open>Parsed documents (parsing\_types.py)\<close>

text \<open>
  The fields the evaluators read. The entries of \<open>work_experience\<close> and \<open>education\<close>
  are declared \<open>Dict[str, Any]\<close> and \<open>skills\<close> is declared \<open>List[str]\<close>, so the
  tests \<open>isinstance(exp, dict)\<close> and \<open>skills is not None\<close> of the source always succeed.
\<close>

record ParsedResumeInternal =
  email :: "string option"
  phone :: "string option"
  work_experience :: "pydict list"
  education :: "pydict list"
  skills :: "string list"

record ParsedJobDescriptionInternal =
  required_skills :: "string list"
  preferred_skills :: "string list"
  required_education :: "string option"

section \<open>Feature extractor (feature\_types.py, feature\_extractor.py)\<close>

record QuantitativeFeatures =
  years_experience :: "real option"
  skills_count :: "nat option"
  keyword_match_count :: "nat option"
  resume_length_words :: "nat option"

record CategoricalFeatures =
  has_required_skills :: "bool option"
  has_required_degree :: "bool option"

record FeatureVectorInternal =
  quantitative :: QuantitativeFeatures
  categorical :: CategoricalFeatures
  missing_features :: "string list"
  computation_method :: "string \<Rightarrow> string option"

definition new_feature_vector :: FeatureVectorInternal where
  "new_feature_vector =
     \<lparr>quantitative = \<lparr>years_experience = None, skills_count = None,
                      keyword_match_count = None, resume_length_words = None\<rparr>,
      categorical = \<lparr>has_required_skills = None, has_required_degree = None\<rparr>,
      missing_features = [], computation_method = Map.empty\<rparr>"

definition mark_missing :: "string \<Rightarrow> FeatureVectorInternal \<Rightarrow> FeatureVectorInternal" where
  "mark_missing n fv = fv\<lparr>missing_features := missing_features fv @ [n]\<rparr>"

definition mark_method ::
  "string \<Rightarrow> string \<Rightarrow> FeatureVectorInternal \<Rightarrow> FeatureVectorInternal" where
  "mark_method n m fv = fv\<lparr>computation_method := (computation_method fv)(n \<mapsto> m)\<rparr>"

text \<open>Each \<open>_compute_*\<close> method returns its value and the feature vector it has annotated.\<close>

definition compute_skills_count ::
  "ParsedResumeInternal \<Rightarrow> FeatureVectorInternal \<Rightarrow> nat \<times> FeatureVectorInternal" where
  "compute_skills_count resume fv =
     (length (skills resume), mark_method ''skills_count'' ''deterministic_rule'' fv)"

definition count_matches :: "string list \<Rightarrow> string list \<Rightarrow> nat" where
  "count_matches resume_skills_lower required_skills_lower =
     length (filter (\<lambda>s. s \<in> set resume_skills_lower) required_skills_lower)"

definition compute_keyword_match_count ::
  "ParsedResumeInternal \<Rightarrow> ParsedJobDescriptionInternal \<Rightarrow> FeatureVectorInternal
     \<Rightarrow> nat \<times> FeatureVectorInternal" where
  "compute_keyword_match_count resume jd fv =
     (if skills resume = [] \<or> required_skills jd = [] then
        (0, mark_missing ''keyword_match_count'' fv)
      else
        (count_matches (map lower (skills resume)) (map lower (required_skills jd)),
         mark_method ''keyword_match_count'' ''deterministic_rule'' fv))"

definition description_words :: "pydict \<Rightarrow> nat" where
  "description_words entry =
     (case dict_get entry ''description'' (VStr []) of
        VStr d \<Rightarrow> length (py_split d)
      | _ \<Rightarrow> 0)"

definition word_count :: "ParsedResumeInternal \<Rightarrow> nat" where
  "word_count resume = sum_list (map description_words (work_experience resume))"

definition compute_resume_length_words ::
  "ParsedResumeInternal \<Rightarrow> FeatureVectorInternal \<Rightarrow> nat \<times> FeatureVectorInternal" where
  "compute_resume_length_words resume fv =
     (if work_experience resume \<noteq> [] \<and> word_count resume > 0 then
        (word_count resume, mark_method ''resume_length_words'' ''deterministic_rule'' fv)
      else (0, mark_missing ''resume_length_words'' fv))"

definition has_dates :: "pydict \<Rightarrow> bool" where
  "has_dates entry = (truthy (dict_get entry ''start_date'' VNone)
                    \<and> truthy (dict_get entry ''end_date'' VNone))"

definition compute_years_experience ::
  "ParsedResumeInternal \<Rightarrow> FeatureVectorInternal \<Rightarrow> real \<times> FeatureVectorInternal" where
  "compute_years_experience resume fv =
     (if work_experience resume = [] then (0, mark_missing ''years_experience'' fv)
      else
        (let total_months = 12 * length (filter has_dates (work_experience resume)) in
         (if total_months > 0 then real total_months / 12 else 0,
          mark_method ''years_experience'' ''deterministic_heuristic'' fv)))"

definition compute_has_required_skills ::
  "ParsedResumeInternal \<Rightarrow> ParsedJobDescriptionInternal \<Rightarrow> FeatureVectorInternal
     \<Rightarrow> bool \<times> FeatureVectorInternal" where
  "compute_has_required_skills resume jd fv =
     (if skills resume = [] \<or> required_skills jd = [] then
        (False, mark_missing ''has_required_skills'' fv)
      else
        (list_all (\<lambda>s. s \<in> set (map lower (skills resume))) (map lower (required_skills jd)),
         mark_method ''has_required_skills'' ''deterministic_rule'' fv))"

definition degree_matches :: "string \<Rightarrow> pydict \<Rightarrow> bool" where
  "degree_matches required_edu_lower edu =
     (case dict_get edu ''degree'' (VStr []) of
        VStr d \<Rightarrow> contains required_edu_lower (lower d)
      | _ \<Rightarrow> False)"

definition compute_has_required_degree ::
  "ParsedResumeInternal \<Rightarrow> ParsedJobDescriptionInternal \<Rightarrow> FeatureVectorInternal
     \<Rightarrow> bool \<times> FeatureVectorInternal" where
  "compute_has_required_degree resume jd fv =
     (case required_education jd of
        None \<Rightarrow> (False, mark_missing ''has_required_degree'' fv)
      | Some req \<Rightarrow>
          if req = [] then (False, mark_missing ''has_required_degree'' fv)
          else if education resume = [] then (False, fv)
          else (list_ex (degree_matches (lower req)) (education resume),
                mark_method ''has_required_degree'' ''deterministic_rule'' fv))"

text \<open>The six assignments of \<open>extract\<close>, one function each.\<close>

definition set_skills_count ::
  "ParsedResumeInternal \<Rightarrow> FeatureVectorInternal \<Rightarrow> FeatureVectorInternal" where
  "set_skills_count resume fv =
     (let (v, f) = compute_skills_count resume fv
      in f\<lparr>quantitative := (quantitative f)\<lparr>skills_count := Some v\<rparr>\<rparr>)"

definition set_keyword_match_count ::
  "ParsedResumeInternal \<Rightarrow> ParsedJobDescriptionInternal \<Rightarrow> FeatureVectorInternal
     \<Rightarrow> FeatureVectorInternal" where
  "set_keyword_match_count resume jd fv =
     (let (v, f) = compute_keyword_match_count resume jd fv
      in f\<lparr>quantitative := (quantitative f)\<lparr>keyword_match_count := Some v\<rparr>\<rparr>)"

definition set_resume_length_words ::
  "ParsedResumeInternal \<Rightarrow> FeatureVectorInternal \<Rightarrow> FeatureVectorInternal" where
  "set_resume_length_words resume fv =
     (let (v, f) = compute_resume_length_words resume fv
      in f\<lparr>quantitative := (quantitative f)\<lparr>resume_length_words := Some v\<rparr>\<rparr>)"

definition set_years_experience ::
  "ParsedResumeInternal \<Rightarrow> FeatureVectorInternal \<Rightarrow> FeatureVectorInternal" where
  "set_years_experience resume fv =
     (let (v, f) = compute_years_experience resume fv
      in f\<lparr>quantitative := (quantitative f)\<lparr>years_experience := Some v\<rparr>\<rparr>)"

definition set_has_required_skills ::
  "ParsedResumeInternal \<Rightarrow> ParsedJobDescriptionInternal \<Rightarrow> FeatureVectorInternal
     \<Rightarrow> FeatureVectorInternal" where
  "set_has_required_skills resume jd fv =
     (let (v, f) = compute_has_required_skills resume jd fv
      in f\<lparr>categorical := (categorical f)\<lparr>has_required_skills := Some v\<rparr>\<rparr>)"

definition set_has_required_degree ::
  "ParsedResumeInternal \<Rightarrow> ParsedJobDescriptionInternal \<Rightarrow> FeatureVectorInternal
     \<Rightarrow> FeatureVectorInternal" where
  "set_has_required_degree resume jd fv =
     (let (v, f) = compute_has_required_degree resume jd fv
      in f\<lparr>categorical := (categorical f)\<lparr>has_required_degree := Some v\<rparr>\<rparr>)"

definition extract_features ::
  "ParsedResumeInternal \<Rightarrow> ParsedJobDescriptionInternal \<Rightarrow> FeatureVectorInternal" where
  "extract_features resume jd =
     set_has_required_degree resume jd
       (set_has_required_skills resume jd
          (set_years_experience resume
             (set_resume_length_words resume
                (set_keyword_match_count resume jd
                   (set_skills_count resume new_feature_vector)))))"

section \<open>ATS simulator (ats\_types.py, ats\_simulator.py)\<close>

record ATSRequiredFieldsStatus =
  st_email :: bool
  st_phone :: bool
  st_work_history :: bool
  st_education :: bool
  all_present :: bool

record ATSHardFilters =
  experience_met :: "bool option"
  education_met :: "bool option"
  certifications_met :: "bool option"
  all_met :: "bool option"

record MatchedKeyword =
  keyword :: string
  kw_location :: string
  weight :: real

record ATSKeywordBreakdown =
  matched_keywords :: "MatchedKeyword list"
  missing_keywords :: "string list"
  total_required :: nat
  total_matched :: nat

record ATSResultInternal =
  keyword_match_percentage :: real
  compatibility_score :: real
  required_fields_status :: ATSRequiredFieldsStatus
  hard_filters :: "ATSHardFilters option"
  keyword_breakdown :: ATSKeywordBreakdown
  rejection_reasons :: "string list"
  ats_type :: "string option"

definition new_ats_result :: ATSResultInternal where
  "new_ats_result =
     \<lparr>keyword_match_percentage = 0, compatibility_score = 0,
      required_fields_status = \<lparr>st_email = False, st_phone = False, st_work_history = False,
                                 st_education = False, all_present = False\<rparr>,
      hard_filters = None,
      keyword_breakdown = \<lparr>matched_keywords = [], missing_keywords = [],
                            total_required = 0, total_matched = 0\<rparr>,
      rejection_reasons = [], ats_type = None\<rparr>"

definition reject :: "string \<Rightarrow> ATSResultInternal \<Rightarrow> ATSResultInternal" where
  "reject msg res = res\<lparr>rejection_reasons := rejection_reasons res @ [msg]\<rparr>"

definition field_present :: "string option \<Rightarrow> bool" where
  "field_present v = (case v of None \<Rightarrow> False | Some s \<Rightarrow> strip s \<noteq> [])"

definition check_required_fields ::
  "ParsedResumeInternal \<Rightarrow> ATSResultInternal \<Rightarrow> ATSRequiredFieldsStatus \<times> ATSResultInternal" where
  "check_required_fields resume res =
     (let e = field_present (email resume);
          p = field_present (phone resume);
          w = (length (work_experience resume) > 0);
          d = (length (education resume) > 0);
          r1 = (if \<not> e then reject ''Missing required field: email'' res else res);
          r2 = (if \<not> p then reject ''Missing required field: phone'' r1 else r1);
          r3 = (if \<not> w then reject ''Missing required field: work history'' r2 else r2)
      in (\<lparr>st_email = e, st_phone = p, st_work_history = w, st_education = d,
           all_present = (e \<and> p \<and> w)\<rparr>, r3))"

definition check_hard_filters ::
  "FeatureVectorInternal \<Rightarrow> ATSResultInternal \<Rightarrow> ATSHardFilters \<times> ATSResultInternal" where
  "check_hard_filters fv res =
     (let ex = has_required_skills (categorical fv);
          r1 = (if ex = Some False
                then reject ''Hard filter failed: missing required skills'' res else res);
          ed = has_required_degree (categorical fv);
          r2 = (if ed = Some False
                then reject ''Hard filter failed: missing required education'' r1 else r1);
          al = (case (ex, ed) of
                  (Some a, Some b) \<Rightarrow> Some (a \<and> b)
                | (Some a, None) \<Rightarrow> Some a
                | (None, Some b) \<Rightarrow> Some b
                | (None, None) \<Rightarrow> None)
      in (\<lparr>experience_met = ex, education_met = ed, certifications_met = None, all_met = al\<rparr>,
          r2))"

definition compute_keyword_matching ::
  "ParsedResumeInternal \<Rightarrow> ParsedJobDescriptionInternal \<Rightarrow> FeatureVectorInternal
     \<Rightarrow> ATSResultInternal \<Rightarrow> ATSKeywordBreakdown \<times> ATSResultInternal" where
  "compute_keyword_matching resume jd fv res =
     (let required_keywords = required_skills jd;
          n = length required_keywords
      in if n = 0 then
           (\<lparr>matched_keywords = [], missing_keywords = [], total_required = n,
             total_matched = 0\<rparr>, res)
         else
           (let resume_skills_lower = map lower (skills resume);
                matched = map (\<lambda>k. \<lparr>keyword = k, kw_location = ''skills'', weight = 1\<rparr>)
                            (filter (\<lambda>k. lower k \<in> set resume_skills_lower) required_keywords);
                missing = filter (\<lambda>k. lower k \<notin> set resume_skills_lower) required_keywords;
                tm = (case keyword_match_count (quantitative fv) of
                        None \<Rightarrow> length matched | Some c \<Rightarrow> c);
                r1 = (if tm < n then
                        reject (''Missing '' @ str_nat (n - tm) @ '' required keyword(s): ''
                                @ join '', '' (take 5 missing)) res
                      else res)
            in (\<lparr>matched_keywords = matched, missing_keywords = missing, total_required = n,
                 total_matched = tm\<rparr>, r1)))"

definition calculate_keyword_match_percentage :: "ATSKeywordBreakdown \<Rightarrow> real" where
  "calculate_keyword_match_percentage b =
     (if total_required b = 0 then 100
      else round2 ((real (total_matched b) / real (total_required b)) * 100))"

definition calculate_compatibility_score :: "ATSResultInternal \<Rightarrow> real" where
  "calculate_compatibility_score res =
     (let s0 = 100;
          s1 = (if \<not> st_email (required_fields_status res) then s0 - 25 else s0);
          s2 = (if \<not> st_phone (required_fields_status res) then s1 - 25 else s1);
          s3 = (if \<not> st_work_history (required_fields_status res) then s2 - 30 else s2);
          s4 = (case hard_filters res of
                  None \<Rightarrow> s3
                | Some hf \<Rightarrow>
                    (let t1 = (if experience_met hf = Some False then s3 - 20 else s3)
                     in (if education_met hf = Some False then t1 - 15 else t1)));
          s5 = (if keyword_match_percentage res < 60
                then s4 - min (60 - keyword_match_percentage res) 20 else s4)
      in max 0 (round2 s5))"

text \<open>The five assignments of \<open>simulate\<close>, one function each.\<close>

definition set_required_fields_status ::
  "ParsedResumeInternal \<Rightarrow> ATSResultInternal \<Rightarrow> ATSResultInternal" where
  "set_required_fields_status resume res =
     (let (status, r) = check_required_fields resume res
      in r\<lparr>required_fields_status := status\<rparr>)"

definition set_hard_filters ::
  "FeatureVectorInternal \<Rightarrow> ATSResultInternal \<Rightarrow> ATSResultInternal" where
  "set_hard_filters fv res =
     (let (hf, r) = check_hard_filters fv res in r\<lparr>hard_filters := Some hf\<rparr>)"

definition set_keyword_breakdown ::
  "ParsedResumeInternal \<Rightarrow> ParsedJobDescriptionInternal \<Rightarrow> FeatureVectorInternal
     \<Rightarrow> ATSResultInternal \<Rightarrow> ATSResultInternal" where
  "set_keyword_breakdown resume jd fv res =
     (let (kb, r) = compute_keyword_matching resume jd fv res in r\<lparr>keyword_breakdown := kb\<rparr>)"

definition set_keyword_match_percentage :: "ATSResultInternal \<Rightarrow> ATSResultInternal" where
  "set_keyword_match_percentage res =
     res\<lparr>keyword_match_percentage := calculate_keyword_match_percentage (keyword_breakdown res)\<rparr>"

definition set_compatibility_score :: "ATSResultInternal \<Rightarrow> ATSResultInternal" where
  "set_compatibility_score res = res\<lparr>compatibility_score := calculate_compatibility_score res\<rparr>"

definition simulate ::
  "ParsedResumeInternal \<Rightarrow> ParsedJobDescriptionInternal \<Rightarrow> FeatureVectorInternal \<Rightarrow> string
     \<Rightarrow> ATSResultInternal" where
  "simulate resume jd fv atype =
     set_compatibility_score
       (set_keyword_match_percentage
          (set_keyword_breakdown resume jd fv
             (set_hard_filters fv
                (set_required_fields_status resume
                   (new_ats_result\<lparr>ats_type := Some atype\<rparr>)))))"

section \<open>Regular expressions as the interview evaluator uses them\<close>

text \<open>
  A backtracking matcher in Python's priority order: alternatives left to right, the
  quantifiers greedy. Every quantifier in the patterns of the source applies to a single
  character class, which is what \<open>Plus\<close>, \<open>Star\<close> and \<open>Opt\<close> take; the patterns have at
  most one group whose text is read back. A matcher state is the text before the
  position (reversed), the text after it, and the text of the group.
\<close>

datatype cls = Lit char | Dig | Spc | OneOf "char list"

datatype re = Atom cls | Plus cls | Star cls | Opt cls | Str string
  | Cat re re | Alt re re | Bnd | Grp re

fun cls_match :: "bool \<Rightarrow> cls \<Rightarrow> char \<Rightarrow> bool" where
  "cls_match ic (Lit c) d = (if ic then lower_char d = lower_char c else d = c)"
| "cls_match ic Dig d = is_digit d"
| "cls_match ic Spc d = is_space d"
| "cls_match ic (OneOf cs) d = (if ic then lower_char d \<in> set (map lower_char cs) else d \<in> set cs)"

fun greedy_run :: "(char \<Rightarrow> bool) \<Rightarrow> string \<Rightarrow> string \<Rightarrow> (string \<times> string) list" where
  "greedy_run P p [] = [(p, [])]"
| "greedy_run P p (c # cs) = (if P c then greedy_run P (c # p) cs else []) @ [(p, c # cs)]"

fun eat :: "bool \<Rightarrow> string \<Rightarrow> string \<Rightarrow> string \<Rightarrow> (string \<times> string) option" where
  "eat ic [] p s = Some (p, s)"
| "eat ic (x # xs) p [] = None"
| "eat ic (x # xs) p (c # cs) = (if cls_match ic (Lit x) c then eat ic xs (c # p) cs else None)"

definition at_boundary :: "string \<Rightarrow> string \<Rightarrow> bool" where
  "at_boundary p s =
     ((case p of [] \<Rightarrow> False | c # _ \<Rightarrow> is_word c) \<noteq> (case s of [] \<Rightarrow> False | c # _ \<Rightarrow> is_word c))"

type_synonym mstate = "string \<times> string \<times> string option"

fun rmatch :: "bool \<Rightarrow> re \<Rightarrow> mstate \<Rightarrow> mstate list" where
  "rmatch ic (Atom k) (p, s, g) =
     (case s of [] \<Rightarrow> [] | c # cs \<Rightarrow> if cls_match ic k c then [(c # p, cs, g)] else [])"
| "rmatch ic (Plus k) (p, s, g) = map (\<lambda>(p', s'). (p', s', g)) (butlast (greedy_run (cls_match ic k) p s))"
| "rmatch ic (Star k) (p, s, g) = map (\<lambda>(p', s'). (p', s', g)) (greedy_run (cls_match ic k) p s)"
| "rmatch ic (Opt k) (p, s, g) =
     (case s of [] \<Rightarrow> [] | c # cs \<Rightarrow> if cls_match ic k c then [(c # p, cs, g)] else [])
     @ [(p, s, g)]"
| "rmatch ic (Str w) (p, s, g) =
     (case eat ic w p s of None \<Rightarrow> [] | Some (p', s') \<Rightarrow> [(p', s', g)])"
| "rmatch ic (Cat a b) st = concat (map (rmatch ic b) (rmatch ic a st))"
| "rmatch ic (Alt a b) st = rmatch ic a st @ rmatch ic b st"
| "rmatch ic Bnd (p, s, g) = (if at_boundary p s then [(p, s, g)] else [])"
| "rmatch ic (Grp a) (p, s, g) =
     map (\<lambda>(p', s', _). (p', s', Some (rev (take (length p' - length p) p'))))
       (rmatch ic a (p, s, g))"

fun cats :: "re list \<Rightarrow> re" where
  "cats [] = Str []"
| "cats [r] = r"
| "cats (r # rs) = Cat r (cats rs)"

fun alts :: "re \<Rightarrow> re list \<Rightarrow> re" where
  "alts r [] = r"
| "alts r (q # qs) = Alt r (alts q qs)"

text \<open>\<open>re.search\<close>, as a truth value: some position has a match.\<close>

fun search_at :: "bool \<Rightarrow> re \<Rightarrow> string \<Rightarrow> string \<Rightarrow> bool" where
  "search_at ic r p [] = (rmatch ic r (p, [], None) \<noteq> [])"
| "search_at ic r p (c # cs) = (rmatch ic r (p, c # cs, None) \<noteq> [] \<or> search_at ic r (c # p) cs)"

definition re_search :: "bool \<Rightarrow> re \<Rightarrow> string \<Rightarrow> bool" where
  "re_search ic r t = search_at ic r [] t"

text \<open>
  The leftmost non-overlapping matches, each with the text of the group:
  \<open>skip\<close> counts the characters still inside the previous match.
\<close>

fun scan :: "bool \<Rightarrow> re \<Rightarrow> nat \<Rightarrow> string \<Rightarrow> string \<Rightarrow> (string \<times> string option) list" where
  "scan ic r skip p [] =
     (if skip = 0 then
        (case rmatch ic r (p, [], None) of [] \<Rightarrow> []
         | (p', s', g) # _ \<Rightarrow> [(rev (take (length p' - length p) p'), g)])
      else [])"
| "scan ic r skip p (c # cs) =
     (if skip > 0 then scan ic r (skip - 1) (c # p) cs
      else (case rmatch ic r (p, c # cs, None) of
              [] \<Rightarrow> scan ic r 0 (c # p) cs
            | (p', s', g) # _ \<Rightarrow>
                (rev (take (length p' - length p) p'), g)
                # scan ic r (length p' - length p - 1) (c # p) cs))"

text \<open>\<open>re.findall\<close> for a pattern without a group, and for a pattern with one group
  (the text of the group, empty where the group took no part in the match).\<close>

definition findall_whole :: "bool \<Rightarrow> re \<Rightarrow> string \<Rightarrow> string list" where
  "findall_whole ic r t = map fst (scan ic r 0 [] t)"

definition findall_group :: "bool \<Rightarrow> re \<Rightarrow> string \<Rightarrow> string list" where
  "findall_group ic r t =
     map (\<lambda>(w, g). case g of None \<Rightarrow> [] | Some x \<Rightarrow> x) (scan ic r 0 [] t)"

text \<open>
  \<open>re.split\<close> for a pattern without a group. The one pattern it is used with cannot match
  the empty string; a match of length zero is passed over.
\<close>

fun split_at :: "re \<Rightarrow> nat \<Rightarrow> string \<Rightarrow> string \<Rightarrow> string \<Rightarrow> string list" where
  "split_at r skip cur p [] = [rev cur]"
| "split_at r skip cur p (c # cs) =
     (if skip > 0 then split_at r (skip - 1) cur (c # p) cs
      else (case rmatch False r (p, c # cs, None) of
              [] \<Rightarrow> split_at r 0 (c # cur) (c # p) cs
            | (p', s', g) # _ \<Rightarrow>
                (if length p' - length p = 0 then split_at r 0 (c # cur) (c # p) cs
                 else rev cur # split_at r (length p' - length p - 1) [] (c # p) cs)))"

definition re_split :: "re \<Rightarrow> string \<Rightarrow> string list" where
  "re_split r t = split_at r 0 [] [] t"

section \<open>Interview readiness evaluator (interview\_types.py, interview\_readiness.py)\<close>

record ResumeClaim =
  claim_text :: string
  claim_type :: string
  defensibility_score :: real
  depth_indicator :: string
  consistency_risk :: "string option"
  supporting_evidence :: "string list"

record PredictedInterviewQuestion =
  question :: string
  likelihood :: real
  question_type :: string
  related_claim :: "string option"
  reasoning :: "string option"

record ConsistencyRisk =
  risk_type :: string
  cr_severity :: string
  cr_description :: string
  cr_related_claim :: "string option"
  mitigation_suggestion :: "string option"

record InterviewReadinessResultInternal =
  readiness_score :: real
  resume_claims :: "ResumeClaim list"
  predicted_questions :: "PredictedInterviewQuestion list"
  consistency_risks :: "ConsistencyRisk list"

text \<open>\<^verbatim>\<open>\d+%|\d+\.\d+%|\$\d+[KMB]?|\d+\s*(million|thousand|k|m|b)\b|\d+\s*(years?|months?|days?)\b\<close>\<close>

definition metrics_pattern :: re where
  "metrics_pattern =
     alts (cats [Plus Dig, Atom (Lit (CHR ''%''))])
       [cats [Plus Dig, Atom (Lit (CHR ''.'')), Plus Dig, Atom (Lit (CHR ''%''))],
        cats [Atom (Lit (CHR ''$'')), Plus Dig, Opt (OneOf ''KMB'')],
        cats [Plus Dig, Star Spc,
              Grp (alts (Str ''million'') [Str ''thousand'', Str ''k'', Str ''m'', Str ''b'']),
              Bnd],
        cats [Plus Dig, Star Spc,
              Grp (alts (cats [Str ''year'', Opt (Lit (CHR ''s''))])
                     [cats [Str ''month'', Opt (Lit (CHR ''s''))],
                      cats [Str ''day'', Opt (Lit (CHR ''s''))]]),
              Bnd]]"

text \<open>\<^verbatim>\<open>\b(built|developed|created|implemented|designed|optimized|reduced|increased|improved|managed|led|achieved|delivered)\b\<close>\<close>

definition actions_pattern :: re where
  "actions_pattern =
     cats [Bnd,
           Grp (alts (Str ''built'')
                  [Str ''developed'', Str ''created'', Str ''implemented'', Str ''designed'',
                   Str ''optimized'', Str ''reduced'', Str ''increased'', Str ''improved'',
                   Str ''managed'', Str ''led'', Str ''achieved'', Str ''delivered'']),
           Bnd]"

text \<open>The pattern \<^verbatim>\<open>[B\-\*]\s*|\n\s*[-B*]\s*\<close> of \<open>re.split\<close>, where \<^verbatim>\<open>B\<close> stands for
  the bullet character.\<close>

definition bullet_pattern :: re where
  "bullet_pattern =
     Alt (cats [Atom (OneOf [bullet, CHR ''-'', CHR ''*'']), Star Spc])
         (cats [Atom (Lit (CHR 0x0A)), Star Spc, Atom (OneOf [CHR ''-'', bullet, CHR ''*'']),
                Star Spc])"

text \<open>\<^verbatim>\<open>\d+\.?\d*%\<close>\<close>

definition percent_pattern :: re where
  "percent_pattern = cats [Plus Dig, Opt (Lit (CHR ''.'')), Star Dig, Atom (Lit (CHR ''%''))]"

text \<open>\<^verbatim>\<open>\d+[KMB]?|\d+\s*(million|thousand|k|m|b|years?|months?|days?)\b\<close>\<close>

definition units_pattern :: re where
  "units_pattern =
     Alt (cats [Plus Dig, Opt (OneOf ''KMB'')])
         (cats [Plus Dig, Star Spc,
                Grp (alts (Str ''million'')
                       [Str ''thousand'', Str ''k'', Str ''m'', Str ''b'',
                        cats [Str ''year'', Opt (Lit (CHR ''s''))],
                        cats [Str ''month'', Opt (Lit (CHR ''s''))],
                        cats [Str ''day'', Opt (Lit (CHR ''s''))]]),
                Bnd])"

definition vague_indicators :: "string list" where
  "vague_indicators = [''helped'', ''assisted'', ''worked on'', ''involved in'',
                       ''contributed to'', ''part of'', ''responsible for'']"

definition has_metrics :: "string \<Rightarrow> bool" where
  "has_metrics text = re_search True metrics_pattern text"

definition has_specific_actions :: "string \<Rightarrow> bool" where
  "has_specific_actions text = re_search False actions_pattern (lower text)"

definition is_vague :: "string \<Rightarrow> bool" where
  "is_vague text = list_ex (\<lambda>indicator. contains indicator (lower text)) vague_indicators"

definition evaluate_defensibility :: "string \<Rightarrow> real \<times> string" where
  "evaluate_defensibility text =
     (if has_metrics text then (0.9, ''deep'')
      else if has_specific_actions text \<and> \<not> is_vague text then (0.7, ''moderate'')
      else if is_vague text \<or> length (py_split text) < 5 then (0.3, ''surface'')
      else (0.5, ''moderate''))"

definition assess_consistency_risk :: "string \<Rightarrow> real \<Rightarrow> string option" where
  "assess_consistency_risk text score =
     (if score < 0.4 then Some ''high''
      else if score < 0.6 then Some ''medium''
      else None)"

definition extract_supporting_evidence :: "string \<Rightarrow> string list" where
  "extract_supporting_evidence text =
     findall_whole False percent_pattern text @ findall_group True units_pattern text"

definition create_claim_from_text :: "string \<Rightarrow> string \<Rightarrow> pydict \<Rightarrow> ResumeClaim" where
  "create_claim_from_text text ctype job =
     (let (score, depth) = evaluate_defensibility text
      in \<lparr>claim_text = text, claim_type = ctype, defensibility_score = score,
          depth_indicator = depth,
          consistency_risk = assess_consistency_risk text score,
          supporting_evidence = extract_supporting_evidence text\<rparr>)"

text \<open>The two inner loops of \<open>_extract_resume_claims\<close>, for one job.\<close>

definition achievement_texts :: "pydict \<Rightarrow> string list" where
  "achievement_texts job =
     (case dict_get job ''achievements'' (VList []) of
        VList items \<Rightarrow>
          concat (map (\<lambda>a. case a of VStr s \<Rightarrow> (if strip s \<noteq> [] then [strip s] else [])
                                   | _ \<Rightarrow> []) items)
      | _ \<Rightarrow> [])"

definition description_texts :: "pydict \<Rightarrow> string list" where
  "description_texts job =
     (case dict_get job ''description'' (VStr []) of
        VStr d \<Rightarrow>
          (if strip d \<noteq> [] then
             filter (\<lambda>b. b \<noteq> [] \<and> length b > 10) (map strip (re_split bullet_pattern d))
           else [])
      | _ \<Rightarrow> [])"

definition job_claims :: "pydict \<Rightarrow> ResumeClaim list" where
  "job_claims job =
     map (\<lambda>t. create_claim_from_text t ''achievement'' job) (achievement_texts job)
     @ map (\<lambda>t. create_claim_from_text t ''achievement'' job) (description_texts job)"

definition skill_claim :: "string \<Rightarrow> ResumeClaim" where
  "skill_claim skill =
     \<lparr>claim_text = ''Proficient in '' @ skill, claim_type = ''skill'',
      defensibility_score = 0.5, depth_indicator = ''surface'',
      consistency_risk = Some ''medium'', supporting_evidence = []\<rparr>"

definition extract_resume_claims :: "ParsedResumeInternal \<Rightarrow> ResumeClaim list" where
  "extract_resume_claims resume =
     (let claims = concat (map job_claims (work_experience resume)) in
      if claims = [] \<and> skills resume \<noteq> [] then
        map skill_claim (filter (\<lambda>s. s \<noteq> [] \<and> strip s \<noteq> []) (take 5 (skills resume)))
      else claims)"

text \<open>The body of the loop of \<open>_predict_interview_questions\<close>, for one claim.\<close>

definition claim_questions :: "ResumeClaim \<Rightarrow> PredictedInterviewQuestion list" where
  "claim_questions c =
     (if consistency_risk c = Some ''high'' \<or> consistency_risk c = Some ''medium'' then
        [\<lparr>question = ''Can you explain how you achieved: '' @ [CHR 0x27] @ take 50 (claim_text c)
                      @ ''...'' @ [CHR 0x27] @ ''?'',
          likelihood = (if consistency_risk c = Some ''high'' then 0.8 else 0.6),
          question_type = ''resume_deep_dive'',
          related_claim = Some (take 100 (claim_text c)),
          reasoning = Some (''Claim has '' @ the (consistency_risk c)
                            @ '' consistency risk and may need clarification.'')\<rparr>]
        @ (if defensibility_score c < 0.5 then
             [\<lparr>question = ''What challenges did you face while working on this?'',
               likelihood = 0.7, question_type = ''behavioral'',
               related_claim = Some (take 100 (claim_text c)),
               reasoning = Some ''Vague or low-defensibility claims often prompt challenge questions.''\<rparr>]
           else [])
        @ (if supporting_evidence c = [] then
             [\<lparr>question = ''How did you measure the success of this achievement?'',
               likelihood = 0.7, question_type = ''situational'',
               related_claim = Some (take 100 (claim_text c)),
               reasoning = Some ''Claims without metrics often prompt measurement questions.''\<rparr>]
           else [])
      else [])"

definition predict_interview_questions :: "ResumeClaim list \<Rightarrow> PredictedInterviewQuestion list" where
  "predict_interview_questions claims = take 10 (concat (map claim_questions claims))"

text \<open>
  \<open>_identify_consistency_risks\<close>. Adding a non-string description to a string, or iterating
  over achievements that are no sequence, raises \<open>TypeError\<close>; a string of achievements is
  iterated character by character.
\<close>

datatype py_error = TypeError

definition achievements_text :: "jval \<Rightarrow> py_error + string" where
  "achievements_text a =
     (case a of
        VList items \<Rightarrow> Inr (join '' '' (concat (map (\<lambda>v. case v of VStr s \<Rightarrow> [s] | _ \<Rightarrow> []) items)))
      | VStr s \<Rightarrow> Inr (join '' '' (map (\<lambda>c. [c]) s))
      | _ \<Rightarrow> Inl TypeError)"

definition combined_text :: "pydict \<Rightarrow> py_error + string" where
  "combined_text job =
     (case dict_get job ''description'' (VStr []) of
        VStr d \<Rightarrow> (case achievements_text (dict_get job ''achievements'' (VList [])) of
                     Inl e \<Rightarrow> Inl e
                   | Inr t \<Rightarrow> Inr (d @ '' '' @ t))
      | _ \<Rightarrow> Inl TypeError)"

text \<open>The loop over the jobs: the lower-cased skills found so far, or the error raised.\<close>

fun skills_in_experience ::
  "string list \<Rightarrow> pydict list \<Rightarrow> string list \<Rightarrow> py_error + string list" where
  "skills_in_experience sks [] found = Inr found"
| "skills_in_experience sks (job # jobs) found =
     (case combined_text job of
        Inl e \<Rightarrow> Inl e
      | Inr t \<Rightarrow> skills_in_experience sks jobs
                  (found @ map lower (filter (\<lambda>skill. contains (lower skill) (lower t)) sks)))"

definition vague_claim_risks :: "ResumeClaim list \<Rightarrow> ConsistencyRisk list" where
  "vague_claim_risks claims =
     map (\<lambda>c. \<lparr>risk_type = ''vague_claim'',
               cr_severity = (if defensibility_score c < 0.4 then ''high'' else ''medium''),
               cr_description = ''Claim lacks specific evidence: '' @ [CHR 0x27]
                                @ take 60 (claim_text c) @ ''...'' @ [CHR 0x27],
               cr_related_claim = Some (take 100 (claim_text c)),
               mitigation_suggestion =
                 Some ''Prepare specific examples and metrics to support this claim.''\<rparr>)
       (filter (\<lambda>c. supporting_evidence c = [] \<and> defensibility_score c < 0.5) claims)"

definition broad_indicators :: "string list" where
  "broad_indicators = [''significant'', ''major'', ''huge'', ''massive'', ''dramatic'',
                       ''revolutionary'']"

definition overstated_risks :: "ResumeClaim list \<Rightarrow> ConsistencyRisk list" where
  "overstated_risks claims =
     map (\<lambda>c. \<lparr>risk_type = ''overstated_achievement'', cr_severity = ''medium'',
               cr_description = ''Broad impact statement without metrics: '' @ [CHR 0x27]
                                @ take 60 (claim_text c) @ ''...'' @ [CHR 0x27],
               cr_related_claim = Some (take 100 (claim_text c)),
               mitigation_suggestion =
                 Some ''Be ready to quantify the impact with specific numbers.''\<rparr>)
       (filter (\<lambda>c. list_ex (\<lambda>indicator. contains indicator (lower (claim_text c)))
                       broad_indicators
                    \<and> supporting_evidence c = []) claims)"

text \<open>
  A Python set of strings is represented by the list of its elements, without
  repetition. The order in which \<open>list(unused_skills)\<close> yields them is that of the hash
  table, which depends on the hash seed of the interpreter process: it is the parameter
  \<open>order\<close>, a rearrangement of the elements.
\<close>

definition identify_consistency_risks ::
  "(string list \<Rightarrow> string list) \<Rightarrow> ParsedResumeInternal \<Rightarrow> ResumeClaim list
     \<Rightarrow> py_error + ConsistencyRisk list" where
  "identify_consistency_risks order resume claims =
     (case skills_in_experience (skills resume) (work_experience resume) [] of
        Inl e \<Rightarrow> Inl e
      | Inr found \<Rightarrow>
          (let skills_in_resume = remdups (map lower (skills resume));
               unused_skills = filter (\<lambda>s. s \<notin> set found) skills_in_resume
           in Inr ((if unused_skills \<noteq> [] then
                      [\<lparr>risk_type = ''skill_depth_mismatch'', cr_severity = ''medium'',
                        cr_description = ''Skills listed but not mentioned in work experience: ''
                                         @ join '', '' (take 3 (order unused_skills)),
                        cr_related_claim = None,
                        mitigation_suggestion =
                          Some ''Be prepared to explain how you used these skills in your work.''\<rparr>]
                    else [])
                   @ vague_claim_risks claims @ overstated_risks claims)))"

definition claim_deduction :: "ResumeClaim \<Rightarrow> real" where
  "claim_deduction c =
     (if consistency_risk c = Some ''high'' then 8
      else if consistency_risk c = Some ''medium'' then 4 else 0)
     + (if defensibility_score c < 0.4 then 5
        else if defensibility_score c < 0.6 then 2 else 0)"

definition risk_deduction :: "ConsistencyRisk \<Rightarrow> real" where
  "risk_deduction k =
     (if cr_severity k = ''high'' then 10
      else if cr_severity k = ''medium'' then 5
      else if cr_severity k = ''low'' then 2 else 0)"

definition compute_readiness_score :: "ResumeClaim list \<Rightarrow> ConsistencyRisk list \<Rightarrow> real" where
  "compute_readiness_score claims risks =
     max 0 (min 100 (round2 (100 - sum_list (map claim_deduction claims)
                                 - sum_list (map risk_deduction risks))))"

definition evaluate ::
  "(string list \<Rightarrow> string list) \<Rightarrow> ParsedResumeInternal \<Rightarrow> FeatureVectorInternal
     \<Rightarrow> py_error + InterviewReadinessResultInternal" where
  "evaluate order resume fv =
     (let claims = extract_resume_claims resume;
          questions = predict_interview_questions claims
      in case identify_consistency_risks order resume claims of
           Inl e \<Rightarrow> Inl e
         | Inr risks \<Rightarrow>
             Inr \<lparr>readiness_score = compute_readiness_score claims risks,
                  resume_claims = claims, predicted_questions = questions,
                  consistency_risks = risks\<rparr>)"

section \<open>Recruiter result (recruiter\_types.py)\<close>

record RecruiterRedFlag =
  rf_type :: string
  rf_severity :: string
  rf_description :: string
  rf_evidence :: "string option"

record RecruiterResultInternal =
  evaluation_score :: real
  career_progression_score :: real
  job_stability_score :: real
  red_flags :: "RecruiterRedFlag list"
  recruiter_persona :: "string option"

section \<open>Scoring: data structures (scoring\_types.py)\<close>

record StageProbabilities =
  ats_pass :: real
  recruiter_pass :: real
  interview_pass :: real
  offer :: real

record SignalImpact =
  signal :: string
  stages_affected :: "string list"
  compound_effect :: "real option"

record SignalCompoundingSummary =
  positive_signals :: "SignalImpact list"
  negative_signals :: "SignalImpact list"

section \<open>Signal compounding engine (signal\_compounding.py)\<close>

definition analyze_ats_influence :: "ATSResultInternal \<Rightarrow> RecruiterResultInternal \<Rightarrow> SignalImpact" where
  "analyze_ats_influence ats rec =
     (let ats_score = compatibility_score ats in
      if ats_score \<ge> 80 then
        \<lparr>signal = ''Strong ATS compatibility'',
         stages_affected = [''ats'', ''recruiter''], compound_effect = Some 0.05\<rparr>
      else if ats_score < 50 then
        \<lparr>signal = ''Weak ATS compatibility'',
         stages_affected = [''ats'', ''recruiter''], compound_effect = Some (- 0.15)\<rparr>
      else
        \<lparr>signal = ''Moderate ATS compatibility'',
         stages_affected = [''ats'', ''recruiter''], compound_effect = Some (- 0.05)\<rparr>)"

definition analyze_interview_dominance :: "InterviewReadinessResultInternal \<Rightarrow> SignalImpact option" where
  "analyze_interview_dominance intv =
     (let high_risk_count = length (filter (\<lambda>k. cr_severity k = ''high'') (consistency_risks intv));
          critical_risk_count =
            length (filter (\<lambda>k. cr_severity k = ''critical'') (consistency_risks intv))
      in
      if critical_risk_count > 0 then
        Some \<lparr>signal = ''Critical interview consistency risks detected'',
              stages_affected = [''interview'', ''offer''], compound_effect = Some (- 0.40)\<rparr>
      else if high_risk_count \<ge> 2 then
        Some \<lparr>signal = ''Multiple high-severity interview consistency risks'',
              stages_affected = [''interview'', ''offer''], compound_effect = Some (- 0.25)\<rparr>
      else if high_risk_count = 1 then
        Some \<lparr>signal = ''High-severity interview consistency risk detected'',
              stages_affected = [''interview'', ''offer''], compound_effect = Some (- 0.15)\<rparr>
      else if readiness_score intv < 50 then
        Some \<lparr>signal = ''Low interview readiness score'',
              stages_affected = [''interview'', ''offer''], compound_effect = Some (- 0.20)\<rparr>
      else if readiness_score intv \<ge> 80 then
        Some \<lparr>signal = ''High interview readiness score'',
              stages_affected = [''interview'', ''offer''], compound_effect = Some 0.10\<rparr>
      else None)"

text \<open>The three severity buckets that \<open>_analyze_risk_compounding\<close> fills, in order.\<close>

definition critical_risks :: "ATSResultInternal \<Rightarrow> RecruiterResultInternal \<Rightarrow> InterviewReadinessResultInternal
     \<Rightarrow> string list" where
  "critical_risks ats rec intv =
     (if compatibility_score ats < 40 then [''ATS compatibility score below 40''] else [])
     @ map (\<lambda>f. ''Recruiter red flag: '' @ rf_type f)
         (filter (\<lambda>f. rf_severity f = ''critical'') (red_flags rec))
     @ map (\<lambda>k. ''Interview risk: '' @ risk_type k)
         (filter (\<lambda>k. cr_severity k = ''critical'') (consistency_risks intv))"

definition high_risks :: "ATSResultInternal \<Rightarrow> RecruiterResultInternal \<Rightarrow> InterviewReadinessResultInternal
     \<Rightarrow> string list" where
  "high_risks ats rec intv =
     map (\<lambda>f. ''Recruiter red flag: '' @ rf_type f)
       (filter (\<lambda>f. rf_severity f \<noteq> ''critical'' \<and> rf_severity f = ''high'') (red_flags rec))
     @ map (\<lambda>k. ''Interview risk: '' @ risk_type k)
         (filter (\<lambda>k. cr_severity k \<noteq> ''critical'' \<and> cr_severity k = ''high'')
            (consistency_risks intv))"

definition medium_risks :: "ATSResultInternal \<Rightarrow> RecruiterResultInternal \<Rightarrow> InterviewReadinessResultInternal
     \<Rightarrow> string list" where
  "medium_risks ats rec intv =
     map (\<lambda>k. ''Interview risk: '' @ risk_type k)
       (filter (\<lambda>k. cr_severity k \<noteq> ''critical'' \<and> cr_severity k \<noteq> ''high''
                    \<and> cr_severity k = ''medium'') (consistency_risks intv))"

definition analyze_risk_compounding :: "ATSResultInternal \<Rightarrow> RecruiterResultInternal \<Rightarrow> InterviewReadinessResultInternal
     \<Rightarrow> SignalImpact list" where
  "analyze_risk_compounding ats rec intv =
     (if critical_risks ats rec intv \<noteq> [] then
        [\<lparr>signal = ''Critical risks detected: '' @ join '', '' (take 2 (critical_risks ats rec intv)),
          stages_affected = [''ats'', ''recruiter'', ''interview'', ''offer''],
          compound_effect = Some (- 0.35)\<rparr>]
      else [])
     @ (if length (medium_risks ats rec intv) \<ge> 3 then
        [\<lparr>signal = ''Multiple medium risks compound to high overall risk (''
                   @ str_nat (length (medium_risks ats rec intv)) @ '' risks)'',
          stages_affected = [''recruiter'', ''interview'', ''offer''],
          compound_effect = Some (- 0.20)\<rparr>]
      else [])
     @ (if length (high_risks ats rec intv) \<ge> 2 then
        [\<lparr>signal = ''Multiple high-severity risks compound (''
                   @ str_nat (length (high_risks ats rec intv)) @ '' risks)'',
          stages_affected = [''recruiter'', ''interview'', ''offer''],
          compound_effect = Some (- 0.25)\<rparr>]
      else [])"

text \<open>Python truthiness of an \<open>Optional[float]\<close>: neither \<open>None\<close> nor zero.\<close>

definition truthy_effect :: "real option \<Rightarrow> bool" where
  "truthy_effect e = (case e of None \<Rightarrow> False | Some v \<Rightarrow> v \<noteq> 0)"

definition engine_apply :: "ATSResultInternal \<Rightarrow> RecruiterResultInternal \<Rightarrow> InterviewReadinessResultInternal
     \<Rightarrow> SignalCompoundingSummary" where
  "engine_apply ats rec intv =
     (let ats_impact = analyze_ats_influence ats rec;
          ats_positive = (truthy_effect (compound_effect ats_impact)
                          \<and> the (compound_effect ats_impact) > 0);
          pos1 = (if ats_positive then [ats_impact] else []);
          neg1 = (if ats_positive then [] else [ats_impact]);
          interview_impact = analyze_interview_dominance intv;
          int_negative = (case interview_impact of None \<Rightarrow> False
                          | Some s \<Rightarrow> truthy_effect (compound_effect s)
                                    \<and> the (compound_effect s) < 0);
          pos2 = (case interview_impact of None \<Rightarrow> pos1
                  | Some s \<Rightarrow> if int_negative then pos1 else pos1 @ [s]);
          neg2 = (case interview_impact of None \<Rightarrow> neg1
                  | Some s \<Rightarrow> if int_negative then neg1 @ [s] else neg1)
      in \<lparr>positive_signals = pos2,
          negative_signals = neg2 @ analyze_risk_compounding ats rec intv\<rparr>)"

section \<open>Score aggregator (score\_aggregator.py)\<close>

definition calculate_base_probabilities :: "ATSResultInternal \<Rightarrow> RecruiterResultInternal \<Rightarrow> InterviewReadinessResultInternal
     \<Rightarrow> StageProbabilities" where
  "calculate_base_probabilities ats rec intv =
     (let a = max 0 (min 1 (compatibility_score ats / 100));
          r = max 0 (min 1 (evaluation_score rec / 100));
          i = max 0 (min 1 (readiness_score intv / 100));
          off = (if i > 0.5 then 0.7 + (i - 0.5) * 0.4 else i * 0.5)
      in \<lparr>ats_pass = a, recruiter_pass = r, interview_pass = i,
          offer = max 0 (min 1 off)\<rparr>)"

definition apply_positive :: "StageProbabilities \<Rightarrow> SignalImpact \<Rightarrow> StageProbabilities" where
  "apply_positive adj s =
     (if truthy_effect (compound_effect s) then
        (let e = the (compound_effect s);
             a1 = (if ''recruiter'' \<in> set (stages_affected s)
                   then adj\<lparr>recruiter_pass := min 1 (recruiter_pass adj + e)\<rparr> else adj);
             a2 = (if ''interview'' \<in> set (stages_affected s)
                   then a1\<lparr>interview_pass := min 1 (interview_pass a1 + e)\<rparr> else a1)
         in (if ''offer'' \<in> set (stages_affected s)
             then a2\<lparr>offer := min 1 (offer a2 + e)\<rparr> else a2))
      else adj)"

definition apply_negative :: "StageProbabilities \<Rightarrow> SignalImpact \<Rightarrow> StageProbabilities" where
  "apply_negative adj s =
     (if truthy_effect (compound_effect s) then
        (let e = the (compound_effect s);
             a1 = (if ''recruiter'' \<in> set (stages_affected s)
                   then adj\<lparr>recruiter_pass := max 0 (recruiter_pass adj + e)\<rparr> else adj);
             a2 = (if ''interview'' \<in> set (stages_affected s)
                   then a1\<lparr>interview_pass := max 0 (interview_pass a1 + e)\<rparr> else a1)
         in (if ''offer'' \<in> set (stages_affected s)
             then a2\<lparr>offer := max 0 (offer a2 + e)\<rparr> else a2))
      else adj)"

definition funnel :: "StageProbabilities \<Rightarrow> StageProbabilities" where
  "funnel adj =
     (let r = min (recruiter_pass adj) (ats_pass adj);
          i = min (interview_pass adj) r;
          off = min (offer adj) i
      in \<lparr>ats_pass = ats_pass adj, recruiter_pass = r, interview_pass = i, offer = off\<rparr>)"

definition apply_compounding_effects ::
  "StageProbabilities \<Rightarrow> SignalCompoundingSummary \<Rightarrow> StageProbabilities" where
  "apply_compounding_effects base summary =
     funnel (foldl apply_negative (foldl apply_positive base (positive_signals summary))
                (negative_signals summary))"

text \<open>The \<open>stage_probabilities\<close> field of the result of \<open>ScoreAggregator.aggregate\<close>
  (its steps 1 to 3).\<close>

definition aggregate_stage_probabilities :: "ATSResultInternal \<Rightarrow> RecruiterResultInternal \<Rightarrow> InterviewReadinessResultInternal
     \<Rightarrow> StageProbabilities" where
  "aggregate_stage_probabilities ats rec intv =
     apply_compounding_effects (calculate_base_probabilities ats rec intv) (engine_apply ats rec intv)"

section \<open>Recommendation ranking (explainability\_types.py, recommendation\_engine.py)\<close>

record Recommendation =
  priority :: string
  category :: string
  action :: string
  impact :: string
  rec_reasoning :: string
  stage_affected :: string
  impact_score_delta :: "real option"
  impact_probability_delta :: "real option"
  referenced_risk :: "string option"
  referenced_signal :: "string option"





section \<open>Orchestrator (context.py, orchestrator.py)\<close>

text \<open>
  The context carries the intermediate results, of which the orchestrator knows nothing
  (the type \<open>'a\<close>), the statuses and the timings. A stage method works on the intermediate
  results and either returns or raises an \<open>Exception\<close>. \<open>time.time()\<close> is a clock that is
  read twice per stage: the \<open>n\<close>-th reading is \<open>clock n\<close>.
\<close>

record 'a AnalysisContext =
  results :: 'a
  start_time :: "real option"
  stage_timings :: "string \<Rightarrow> real option"
  stage_statuses :: "string \<Rightarrow> string option"

datatype outcome = Returned | Raised

type_synonym 'a stage_method = "'a \<Rightarrow> outcome \<times> 'a"

definition stage_names :: "string list" where
  "stage_names = [''parsing'', ''feature_extraction'', ''ats_simulation'',
                  ''recruiter_evaluation'', ''interview_readiness'', ''scoring'',
                  ''explainability'']"

text \<open>One turn of the loop of \<open>run\<close>; the state is the context and the number of clock
  readings taken so far.\<close>

definition run_stage ::
  "(nat \<Rightarrow> real) \<Rightarrow> 'a AnalysisContext \<times> nat \<Rightarrow> string \<times> 'a stage_method
     \<Rightarrow> 'a AnalysisContext \<times> nat" where
  "run_stage clock st stage =
     (let (ctx, n) = st;
          (stage_name, stage_method) = stage;
          stage_start = clock n;
          c1 = ctx\<lparr>stage_statuses := (stage_statuses ctx)(stage_name \<mapsto> ''running'')\<rparr>;
          (out, res) = stage_method (results c1);
          c2 = c1\<lparr>results := res\<rparr>;
          c3 = (case out of
                  Returned \<Rightarrow> c2\<lparr>stage_statuses := (stage_statuses c2)(stage_name \<mapsto> ''success'')\<rparr>
                | Raised \<Rightarrow> c2\<lparr>stage_statuses := (stage_statuses c2)(stage_name \<mapsto> ''failed'')\<rparr>);
          stage_end = clock (n + 1)
      in (c3\<lparr>stage_timings := (stage_timings c3)(stage_name \<mapsto> stage_end - stage_start)\<rparr>,
          n + 2))"

definition run ::
  "real \<Rightarrow> (nat \<Rightarrow> real) \<Rightarrow> 'a stage_method list \<Rightarrow> 'a AnalysisContext \<Rightarrow> 'a AnalysisContext" where
  "run utcnow clock methods context =
     (let c0 = (if start_time context = None then context\<lparr>start_time := Some utcnow\<rparr>
                else context)
      in fst (foldl (run_stage clock) (c0, 0) (zip stage_names methods)))"

text \<open>The seven stage methods of \<open>AnalysisOrchestrator\<close> itself: each raises
  \<open>NotImplementedError\<close>.\<close>

definition orchestrator_methods :: "'a stage_method list" where
  "orchestrator_methods = replicate 7 (\<lambda>res. (Raised, res))"

section \<open>The compounding step as the specification words it\<close>

text \<open>
  The specification says that a signal's effect is added to every stage the signal names,
  the result clamped to the unit interval: \<open>claimed_apply_signal\<close> does that for all four
  stages, \<open>downstream_apply_signal\<close> for the three stages after the ATS screen.
\<close>

definition clamp01 :: "real \<Rightarrow> real" where
  "clamp01 x = max 0 (min 1 x)"

definition claimed_apply_signal :: "StageProbabilities \<Rightarrow> SignalImpact \<Rightarrow> StageProbabilities" where
  "claimed_apply_signal adj s =
     (case compound_effect s of
        None \<Rightarrow> adj
      | Some e \<Rightarrow>
          (let a0 = (if ''ats'' \<in> set (stages_affected s)
                     then adj\<lparr>ats_pass := clamp01 (ats_pass adj + e)\<rparr> else adj);
               a1 = (if ''recruiter'' \<in> set (stages_affected s)
                     then a0\<lparr>recruiter_pass := clamp01 (recruiter_pass a0 + e)\<rparr> else a0);
               a2 = (if ''interview'' \<in> set (stages_affected s)
                     then a1\<lparr>interview_pass := clamp01 (interview_pass a1 + e)\<rparr> else a1)
           in (if ''offer'' \<in> set (stages_affected s)
               then a2\<lparr>offer := clamp01 (offer a2 + e)\<rparr> else a2)))"

definition downstream_apply_signal :: "StageProbabilities \<Rightarrow> SignalImpact \<Rightarrow> StageProbabilities" where
  "downstream_apply_signal adj s =
     (case compound_effect s of
        None \<Rightarrow> adj
      | Some e \<Rightarrow>
          (let a1 = (if ''recruiter'' \<in> set (stages_affected s)
                     then adj\<lparr>recruiter_pass := clamp01 (recruiter_pass adj + e)\<rparr> else adj);
               a2 = (if ''interview'' \<in> set (stages_affected s)
                     then a1\<lparr>interview_pass := clamp01 (interview_pass a1 + e)\<rparr> else a1)
           in (if ''offer'' \<in> set (stages_affected s)
               then a2\<lparr>offer := clamp01 (offer a2 + e)\<rparr> else a2)))"

definition in_unit :: "StageProbabilities \<Rightarrow> bool" where
  "in_unit p = (0 \<le> ats_pass p \<and> ats_pass p \<le> 1 \<and> 0 \<le> recruiter_pass p \<and> recruiter_pass p \<le> 1
                \<and> 0 \<le> interview_pass p \<and> interview_pass p \<le> 1 \<and> 0 \<le> offer p \<and> offer p \<le> 1)"

definition boosts :: "SignalImpact \<Rightarrow> bool" where
  "boosts s = (case compound_effect s of None \<Rightarrow> False | Some e \<Rightarrow> 0 < e)"

definition penalises :: "SignalImpact \<Rightarrow> bool" where
  "penalises s = (case compound_effect s of None \<Rightarrow> False | Some e \<Rightarrow> e < 0)"

definition claimed_stage_probabilities ::
  "ATSResultInternal \<Rightarrow> RecruiterResultInternal \<Rightarrow> InterviewReadinessResultInternal
     \<Rightarrow> StageProbabilities" where
  "claimed_stage_probabilities ats rec intv =
     funnel (foldl claimed_apply_signal (calculate_base_probabilities ats rec intv)
               (positive_signals (engine_apply ats rec intv)
                @ negative_signals (engine_apply ats rec intv)))"

text \<open>Stage results with an ATS score of 30 and nothing else amiss.\<close>

definition low_ats :: ATSResultInternal where
  "low_ats = new_ats_result\<lparr>compatibility_score := 30\<rparr>"

definition fair_recruiter :: RecruiterResultInternal where
  "fair_recruiter = \<lparr>evaluation_score = 80, career_progression_score = 0.5,
                      job_stability_score = 0.5, red_flags = [], recruiter_persona = None\<rparr>"

definition fair_interview :: InterviewReadinessResultInternal where
  "fair_interview = \<lparr>readiness_score = 80, resume_claims = [], predicted_questions = [],
                      consistency_risks = []\<rparr>"

section \<open>Feature bookkeeping: names and example documents\<close>

definition skills_or_requirements_absent ::
  "ParsedResumeInternal \<Rightarrow> ParsedJobDescriptionInternal \<Rightarrow> bool" where
  "skills_or_requirements_absent r jd = (skills r = [] \<or> required_skills jd = [])"

definition no_word_count :: "ParsedResumeInternal \<Rightarrow> bool" where
  "no_word_count r = (\<not> (work_experience r \<noteq> []
                          \<and> 0 < word_count r))"

definition no_required_education :: "ParsedJobDescriptionInternal \<Rightarrow> bool" where
  "no_required_education jd = (required_education jd = None \<or> required_education jd = Some [])"







section \<open>ATS simulator: rejection reasons and example documents\<close>

definition field_reasons :: "ParsedResumeInternal \<Rightarrow> string list" where
  "field_reasons r =
     (if field_present (email r) then [] else [''Missing required field: email''])
     @ (if field_present (phone r) then [] else [''Missing required field: phone''])
     @ (if work_experience r \<noteq> [] then [] else [''Missing required field: work history''])"

definition filter_reasons :: "FeatureVectorInternal \<Rightarrow> string list" where
  "filter_reasons fv =
     (if has_required_skills (categorical fv) = Some False
      then [''Hard filter failed: missing required skills''] else [])
     @ (if has_required_degree (categorical fv) = Some False
        then [''Hard filter failed: missing required education''] else [])"

definition keyword_reasons ::
  "ParsedResumeInternal \<Rightarrow> ParsedJobDescriptionInternal \<Rightarrow> FeatureVectorInternal \<Rightarrow> string list" where
  "keyword_reasons r jd fv =
     (let n = length (required_skills jd);
          missing = filter (\<lambda>k. lower k \<notin> set (map lower (skills r))) (required_skills jd);
          tm = (case keyword_match_count (quantitative fv) of
                  None \<Rightarrow> length (filter (\<lambda>k. lower k \<in> set (map lower (skills r)))
                                    (required_skills jd))
                | Some c \<Rightarrow> c)
      in if n \<noteq> 0 \<and> tm < n
         then [''Missing '' @ str_nat (n - tm) @ '' required keyword(s): ''
               @ join '', '' (take 5 missing)]
         else [])"

definition no_contact_resume :: ParsedResumeInternal where
  "no_contact_resume =
     \<lparr>email = None, phone = Some ''  '',
      work_experience = [[''title'' \<mapsto> VStr ''Engineer'']], education = [], skills = []\<rparr>"

definition open_job :: ParsedJobDescriptionInternal where
  "open_job = \<lparr>required_skills = [], preferred_skills = [], required_education = None\<rparr>"

definition python_job :: ParsedJobDescriptionInternal where
  "python_job = \<lparr>required_skills = [''Python'', ''SQL''], preferred_skills = [],
                 required_education = None\<rparr>"

definition bare_resume :: ParsedResumeInternal where
  "bare_resume = \<lparr>email = Some ''a@b.org'', phone = Some ''555 0100'',
                  work_experience = [[''title'' \<mapsto> VStr ''Engineer'']], education = [],
                  skills = []\<rparr>"

section \<open>Recommendations: an example list\<close>


section \<open>Orchestrator: what a run leaves behind\<close>

text \<open>The intermediate results after the given stage methods have run in order, whatever
  their outcomes.\<close>

definition results_after :: "'a stage_method list \<Rightarrow> 'a \<Rightarrow> 'a" where
  "results_after methods res = foldl (\<lambda>r m. snd (m r)) res methods"

definition final_status :: "outcome \<Rightarrow> string" where
  "final_status out = (case out of Returned \<Rightarrow> ''success'' | Raised \<Rightarrow> ''failed'')"

text \<open>Seven stage methods over a log of stage names; the third and the sixth raise.\<close>

definition logging_methods :: "string list stage_method list" where
  "logging_methods =
     [\<lambda>log. (Returned, log @ [''parsing'']),
      \<lambda>log. (Returned, log @ [''feature_extraction'']),
      \<lambda>log. (Raised, log @ [''ats_simulation'']),
      \<lambda>log. (Returned, log @ [''recruiter_evaluation'']),
      \<lambda>log. (Returned, log @ [''interview_readiness'']),
      \<lambda>log. (Raised, log),
      \<lambda>log. (Returned, log @ [''explainability''])]"

definition fresh_context :: "string list AnalysisContext" where
  "fresh_context = \<lparr>results = [], start_time = None, stage_timings = Map.empty,
                    stage_statuses = Map.empty\<rparr>"

section \<open>Interview evaluator: where claims come from, as the specification words it\<close>

text \<open>
  Where claims come from, in the words of the specification: a description is cut at
  every delimiter character (the bullet, \<open>-\<close>, \<open>*\<close>), the pieces are stripped of
  surrounding whitespace, and those longer than 10 characters are kept; the achievements
  are the entries of the list that are strings and not blank, stripped.
\<close>

definition is_delimiter :: "char \<Rightarrow> bool" where
  "is_delimiter c = (c = bullet \<or> c = CHR ''-'' \<or> c = CHR ''*'')"

fun split_on_delimiters :: "string \<Rightarrow> string \<Rightarrow> string list" where
  "split_on_delimiters cur [] = [rev cur]"
| "split_on_delimiters cur (c # cs) =
     (if is_delimiter c then rev cur # split_on_delimiters [] cs
      else split_on_delimiters (c # cur) cs)"

definition fragments :: "string \<Rightarrow> string list" where
  "fragments d = filter (\<lambda>f. 10 < length f) (map strip (split_on_delimiters [] d))"

fun string_entries :: "jval list \<Rightarrow> string list" where
  "string_entries [] = []"
| "string_entries (VStr s # vs) = s # string_entries vs"
| "string_entries (v # vs) = string_entries vs"

definition listed_achievements :: "pydict \<Rightarrow> string list" where
  "listed_achievements job =
     (case job ''achievements'' of
        Some (VList items) \<Rightarrow> filter (\<lambda>t. t \<noteq> []) (map strip (string_entries items))
      | _ \<Rightarrow> [])"

definition description_fragments :: "pydict \<Rightarrow> string list" where
  "description_fragments job =
     (case job ''description'' of Some (VStr d) \<Rightarrow> fragments d | _ \<Rightarrow> [])"

text \<open>The texts of one job: from both sources, and from the description only for want of
  achievements.\<close>

definition both_sources :: "pydict \<Rightarrow> string list" where
  "both_sources job = listed_achievements job @ description_fragments job"

definition preferred_source :: "pydict \<Rightarrow> string list" where
  "preferred_source job =
     (if listed_achievements job \<noteq> [] then listed_achievements job
      else description_fragments job)"

definition two_source_resume :: ParsedResumeInternal where
  "two_source_resume =
     \<lparr>email = None, phone = None,
      work_experience = [[''achievements'' \<mapsto> VList [VStr ''Built the billing system''],
                          ''description'' \<mapsto> VStr ''Developed internal tools'']],
      education = [], skills = [''Python'']\<rparr>"

definition bulleted_description :: string where
  "bulleted_description =
     ''Shipped the payments API'' @ [CHR 0x0A] @ '' '' @ [bullet]
     @ '' Mentored two engineers - on call'' @ [bullet] @ ''Reduced build times''"

definition bulleted_resume :: ParsedResumeInternal where
  "bulleted_resume =
     \<lparr>email = None, phone = None,
      work_experience = [[''description'' \<mapsto> VStr bulleted_description]],
      education = [], skills = [''Python'']\<rparr>"

definition skills_only_resume :: ParsedResumeInternal where
  "skills_only_resume =
     \<lparr>email = None, phone = None, work_experience = [], education = [],
      skills = [''Python'', ''  '', ''SQL'', ''Go'', ''Rust'', ''Java'']\<rparr>"

section \<open>Interview evaluator: the specification's example claim\<close>

definition sales_claim :: string where
  "sales_claim = ''Increased sales by 30% through targeted outreach''"

definition sales_resume :: ParsedResumeInternal where
  "sales_resume =
     \<lparr>email = None, phone = None,
      work_experience = [[''achievements'' \<mapsto> VList [VStr sales_claim]]],
      education = [], skills = [''Negotiation'']\<rparr>"

definition benefits_resume :: ParsedResumeInternal where
  "benefits_resume =
     \<lparr>email = None, phone = None, work_experience = [], education = [],
      skills = [''401k administration'']\<rparr>"

section \<open>Interview evaluator: a resume of two skills\<close>

definition two_skill_resume :: ParsedResumeInternal where
  "two_skill_resume =
     \<lparr>email = None, phone = None, work_experience = [], education = [],
      skills = [''python'', ''sql'']\<rparr>"

section \<open>Stage probabilities: bounds and the funnel\<close>

lemma engine_positive_boosts:
  "list_all boosts (positive_signals (engine_apply a r i))"
  by (simp add: engine_apply_def analyze_ats_influence_def analyze_interview_dominance_def
      boosts_def truthy_effect_def Let_def split: option.splits)

lemma engine_negative_penalises:
  "list_all penalises (negative_signals (engine_apply a r i))"
  by (simp add: engine_apply_def analyze_ats_influence_def analyze_interview_dominance_def
      analyze_risk_compounding_def penalises_def truthy_effect_def Let_def split: option.splits)

lemma base_in_unit: "in_unit (calculate_base_probabilities a r i)"
  by (simp add: calculate_base_probabilities_def in_unit_def Let_def)

lemma clamp01_bounds: "0 \<le> clamp01 x \<and> clamp01 x \<le> 1"
  by (simp add: clamp01_def)

lemma min_is_clamp: "0 \<le> p \<Longrightarrow> 0 < e \<Longrightarrow> min 1 (p + e) = clamp01 (p + e)"
  by (simp add: clamp01_def)

lemma max_is_clamp: "p \<le> 1 \<Longrightarrow> e < 0 \<Longrightarrow> max 0 (p + e) = clamp01 (p + e)"
  by (simp add: clamp01_def)

lemma apply_positive_downstream:
  assumes "in_unit p" and "boosts s"
  shows "apply_positive p s = downstream_apply_signal p s \<and> in_unit (apply_positive p s)
     \<and> ats_pass (apply_positive p s) = ats_pass p"
proof -
  from assms(2) obtain e where e: "compound_effect s = Some e" "0 < e"
    by (auto simp add: boosts_def split: option.splits)
  from assms(1) have b: "0 \<le> ats_pass p" "ats_pass p \<le> 1" "0 \<le> recruiter_pass p"
    "recruiter_pass p \<le> 1" "0 \<le> interview_pass p" "interview_pass p \<le> 1"
    "0 \<le> offer p" "offer p \<le> 1"
    by (simp_all add: in_unit_def)
  have eq: "apply_positive p s = downstream_apply_signal p s"
    using e b by (simp add: apply_positive_def downstream_apply_signal_def truthy_effect_def
        Let_def min_is_clamp)
  have "in_unit (downstream_apply_signal p s)"
    using e b by (simp add: downstream_apply_signal_def in_unit_def Let_def clamp01_bounds)
  moreover have "ats_pass (downstream_apply_signal p s) = ats_pass p"
    using e by (simp add: downstream_apply_signal_def Let_def)
  ultimately show ?thesis using eq by simp
qed

lemma apply_negative_downstream:
  assumes "in_unit p" and "penalises s"
  shows "apply_negative p s = downstream_apply_signal p s \<and> in_unit (apply_negative p s)
     \<and> ats_pass (apply_negative p s) = ats_pass p"
proof -
  from assms(2) obtain e where e: "compound_effect s = Some e" "e < 0"
    by (auto simp add: penalises_def split: option.splits)
  from assms(1) have b: "0 \<le> ats_pass p" "ats_pass p \<le> 1" "0 \<le> recruiter_pass p"
    "recruiter_pass p \<le> 1" "0 \<le> interview_pass p" "interview_pass p \<le> 1"
    "0 \<le> offer p" "offer p \<le> 1"
    by (simp_all add: in_unit_def)
  have eq: "apply_negative p s = downstream_apply_signal p s"
    using e b by (simp add: apply_negative_def downstream_apply_signal_def truthy_effect_def
        Let_def max_is_clamp)
  have "in_unit (downstream_apply_signal p s)"
    using e b by (simp add: downstream_apply_signal_def in_unit_def Let_def clamp01_bounds)
  moreover have "ats_pass (downstream_apply_signal p s) = ats_pass p"
    using e by (simp add: downstream_apply_signal_def Let_def)
  ultimately show ?thesis using eq by simp
qed

lemma fold_positive_downstream:
  "in_unit p \<Longrightarrow> list_all boosts ss \<Longrightarrow>
     foldl apply_positive p ss = foldl downstream_apply_signal p ss
     \<and> in_unit (foldl apply_positive p ss) \<and> ats_pass (foldl apply_positive p ss) = ats_pass p"
proof (induction ss arbitrary: p)
  case Nil
  then show ?case by simp
next
  case (Cons s ss)
  from Cons.prems have s: "boosts s" and ss: "list_all boosts ss" by simp_all
  from apply_positive_downstream [OF Cons.prems(1) s]
  have eq: "apply_positive p s = downstream_apply_signal p s"
    and u: "in_unit (apply_positive p s)"
    and a: "ats_pass (apply_positive p s) = ats_pass p" by blast+
  from Cons.IH [OF u ss]
  have "foldl apply_positive (apply_positive p s) ss = foldl downstream_apply_signal (apply_positive p s) ss"
    and "in_unit (foldl apply_positive (apply_positive p s) ss)"
    and "ats_pass (foldl apply_positive (apply_positive p s) ss) = ats_pass (apply_positive p s)"
    by blast+
  with eq a show ?case by (simp del: apply_positive_def)
qed

lemma fold_negative_downstream:
  "in_unit p \<Longrightarrow> list_all penalises ss \<Longrightarrow>
     foldl apply_negative p ss = foldl downstream_apply_signal p ss
     \<and> in_unit (foldl apply_negative p ss) \<and> ats_pass (foldl apply_negative p ss) = ats_pass p"
proof (induction ss arbitrary: p)
  case Nil
  then show ?case by simp
next
  case (Cons s ss)
  from Cons.prems have s: "penalises s" and ss: "list_all penalises ss" by simp_all
  from apply_negative_downstream [OF Cons.prems(1) s]
  have eq: "apply_negative p s = downstream_apply_signal p s"
    and u: "in_unit (apply_negative p s)"
    and a: "ats_pass (apply_negative p s) = ats_pass p" by blast+
  from Cons.IH [OF u ss]
  have "foldl apply_negative (apply_negative p s) ss = foldl downstream_apply_signal (apply_negative p s) ss"
    and "in_unit (foldl apply_negative (apply_negative p s) ss)"
    and "ats_pass (foldl apply_negative (apply_negative p s) ss) = ats_pass (apply_negative p s)"
    by blast+
  with eq a show ?case by (simp del: apply_negative_def)
qed

lemma funnel_ordered:
  "in_unit p \<Longrightarrow>
     0 \<le> offer (funnel p) \<and> offer (funnel p) \<le> interview_pass (funnel p)
     \<and> interview_pass (funnel p) \<le> recruiter_pass (funnel p)
     \<and> recruiter_pass (funnel p) \<le> ats_pass (funnel p) \<and> ats_pass (funnel p) \<le> 1"
  by (auto simp add: funnel_def in_unit_def Let_def min_def)

lemma compounded_in_unit:
  "in_unit (foldl apply_negative
              (foldl apply_positive (calculate_base_probabilities a r i)
                 (positive_signals (engine_apply a r i)))
              (negative_signals (engine_apply a r i)))"
  using fold_positive_downstream [OF base_in_unit engine_positive_boosts, of a r i a r i]
    fold_negative_downstream [OF _ engine_negative_penalises] by blast

text \<open>
  Claim C1. Whatever the three stage results are, the stage probabilities that the
  aggregator returns lie between 0 and 1 and fall along the funnel:
  offer, interview pass, recruiter pass, ATS pass, in non-decreasing order.
\<close>

theorem funnel_invariant:
  "0 \<le> offer (aggregate_stage_probabilities a r i)
   \<and> offer (aggregate_stage_probabilities a r i) \<le> interview_pass (aggregate_stage_probabilities a r i)
   \<and> interview_pass (aggregate_stage_probabilities a r i) \<le> recruiter_pass (aggregate_stage_probabilities a r i)
   \<and> recruiter_pass (aggregate_stage_probabilities a r i) \<le> ats_pass (aggregate_stage_probabilities a r i)
   \<and> ats_pass (aggregate_stage_probabilities a r i) \<le> 1"
  unfolding aggregate_stage_probabilities_def apply_compounding_effects_def
  by (rule funnel_ordered [OF compounded_in_unit])

theorem funnel_invariant_witness:
  "0 \<le> offer (aggregate_stage_probabilities low_ats fair_recruiter fair_interview)
   \<and> offer (aggregate_stage_probabilities low_ats fair_recruiter fair_interview) = 3 / 10
   \<and> ats_pass (aggregate_stage_probabilities low_ats fair_recruiter fair_interview) \<le> 1"
  using funnel_invariant [of low_ats fair_recruiter fair_interview]
  by (simp add: aggregate_stage_probabilities_def apply_compounding_effects_def
      calculate_base_probabilities_def engine_apply_def analyze_ats_influence_def
      analyze_interview_dominance_def analyze_risk_compounding_def critical_risks_def
      high_risks_def medium_risks_def truthy_effect_def apply_positive_def apply_negative_def
      funnel_def low_ats_def fair_recruiter_def fair_interview_def new_ats_result_def Let_def)

text \<open>
  Claim C3, as stated, fails: with an ATS score of 30 the risk-compounding signal names
  the stage \<open>ats\<close> with effect \<open>-0.35\<close>, yet the ATS pass probability stays at its base
  value 0.3, where adding the effects of the signals naming \<open>ats\<close> would leave 0.
\<close>

theorem compounding_ats_counterexample:
  "''ats'' \<in> set (stages_affected
                    (negative_signals (engine_apply low_ats fair_recruiter fair_interview) ! 1))
   \<and> compound_effect (negative_signals (engine_apply low_ats fair_recruiter fair_interview) ! 1)
       = Some (- 0.35)
   \<and> ats_pass (aggregate_stage_probabilities low_ats fair_recruiter fair_interview) = 3 / 10
   \<and> ats_pass (claimed_stage_probabilities low_ats fair_recruiter fair_interview) = 0"
  by (simp add: aggregate_stage_probabilities_def claimed_stage_probabilities_def
      apply_compounding_effects_def claimed_apply_signal_def clamp01_def
      calculate_base_probabilities_def engine_apply_def analyze_ats_influence_def
      analyze_interview_dominance_def analyze_risk_compounding_def critical_risks_def
      high_risks_def medium_risks_def truthy_effect_def apply_positive_def apply_negative_def
      funnel_def low_ats_def fair_recruiter_def fair_interview_def new_ats_result_def Let_def)

text \<open>
  Claim C3, amended. The effect of every signal the engine produces is added, clamped to
  the unit interval, to each of the stages \<open>recruiter\<close>, \<open>interview\<close> and \<open>offer\<close> that the
  signal names, positive signals first, before the funnel is enforced; the ATS pass
  probability is never adjusted.
\<close>

theorem compounding_downstream:
  "aggregate_stage_probabilities a r i =
     funnel (foldl downstream_apply_signal (calculate_base_probabilities a r i)
               (positive_signals (engine_apply a r i) @ negative_signals (engine_apply a r i)))
   \<and> ats_pass (aggregate_stage_probabilities a r i) = ats_pass (calculate_base_probabilities a r i)"
proof -
  let ?b = "calculate_base_probabilities a r i"
  let ?S = "engine_apply a r i"
  let ?p = "foldl apply_positive ?b (positive_signals ?S)"
  let ?n = "foldl apply_negative ?p (negative_signals ?S)"
  from fold_positive_downstream [OF base_in_unit engine_positive_boosts, of a r i a r i]
  have p1: "?p = foldl downstream_apply_signal ?b (positive_signals ?S)"
    and p2: "in_unit ?p" and p3: "ats_pass ?p = ats_pass ?b" by blast+
  from fold_negative_downstream [OF p2 engine_negative_penalises, of a r i]
  have n1: "?n = foldl downstream_apply_signal ?p (negative_signals ?S)"
    and n3: "ats_pass ?n = ats_pass ?p" by blast+
  have eq: "?n = foldl downstream_apply_signal ?b (positive_signals ?S @ negative_signals ?S)"
    by (simp only: foldl_append n1 p1 [symmetric])
  have a: "ats_pass ?n = ats_pass ?b" using n3 p3 by simp
  have agg: "aggregate_stage_probabilities a r i = funnel ?n"
    by (simp add: aggregate_stage_probabilities_def apply_compounding_effects_def)
  have "ats_pass (funnel ?n) = ats_pass ?n" by (simp add: funnel_def Let_def)
  with agg eq a show ?thesis by simp
qed

theorem compounding_downstream_witness:
  "recruiter_pass (aggregate_stage_probabilities low_ats fair_recruiter fair_interview) = 3 / 10
   \<and> ats_pass (aggregate_stage_probabilities low_ats fair_recruiter fair_interview)
       = ats_pass (calculate_base_probabilities low_ats fair_recruiter fair_interview)"
  using compounding_downstream [of low_ats fair_recruiter fair_interview]
  by (simp add: downstream_apply_signal_def clamp01_def
      calculate_base_probabilities_def engine_apply_def analyze_ats_influence_def
      analyze_interview_dominance_def analyze_risk_compounding_def critical_risks_def
      high_risks_def medium_risks_def truthy_effect_def
      funnel_def low_ats_def fair_recruiter_def fair_interview_def new_ats_result_def Let_def)

section \<open>Feature extractor: what is computed and what is named missing\<close>

lemma set_skills_count_fields:
  "missing_features (set_skills_count r fv) = missing_features fv"
  "computation_method (set_skills_count r fv)
     = (computation_method fv)(''skills_count'' \<mapsto> ''deterministic_rule'')"
  "quantitative (set_skills_count r fv) = (quantitative fv)\<lparr>skills_count := Some (length (skills r))\<rparr>"
  "categorical (set_skills_count r fv) = categorical fv"
  by (simp_all add: set_skills_count_def compute_skills_count_def mark_method_def)

lemma set_keyword_match_count_fields:
  "missing_features (set_keyword_match_count r jd fv)
     = missing_features fv
       @ (if skills_or_requirements_absent r jd then [''keyword_match_count''] else [])"
  "computation_method (set_keyword_match_count r jd fv)
     = (if skills_or_requirements_absent r jd then computation_method fv
        else (computation_method fv)(''keyword_match_count'' \<mapsto> ''deterministic_rule''))"
  "quantitative (set_keyword_match_count r jd fv)
     = (quantitative fv)\<lparr>keyword_match_count :=
          Some (if skills_or_requirements_absent r jd then 0
                else count_matches (map lower (skills r)) (map lower (required_skills jd)))\<rparr>"
  "categorical (set_keyword_match_count r jd fv) = categorical fv"
  by (simp_all add: set_keyword_match_count_def compute_keyword_match_count_def
      skills_or_requirements_absent_def mark_method_def mark_missing_def)

lemma set_resume_length_words_fields:
  "missing_features (set_resume_length_words r fv)
     = missing_features fv @ (if no_word_count r then [''resume_length_words''] else [])"
  "computation_method (set_resume_length_words r fv)
     = (if no_word_count r then computation_method fv
        else (computation_method fv)(''resume_length_words'' \<mapsto> ''deterministic_rule''))"
  "quantitative (set_resume_length_words r fv)
     = (quantitative fv)\<lparr>resume_length_words :=
          Some (if no_word_count r then 0
                else word_count r)\<rparr>"
  "categorical (set_resume_length_words r fv) = categorical fv"
  by (simp_all add: set_resume_length_words_def compute_resume_length_words_def
      no_word_count_def mark_method_def mark_missing_def Let_def)

lemma set_years_experience_fields:
  "missing_features (set_years_experience r fv)
     = missing_features fv @ (if work_experience r = [] then [''years_experience''] else [])"
  "computation_method (set_years_experience r fv)
     = (if work_experience r = [] then computation_method fv
        else (computation_method fv)(''years_experience'' \<mapsto> ''deterministic_heuristic''))"
  "quantitative (set_years_experience r fv)
     = (quantitative fv)\<lparr>years_experience :=
          Some (if work_experience r = [] then 0
                else real (length (filter has_dates (work_experience r))))\<rparr>"
  "categorical (set_years_experience r fv) = categorical fv"
  by (simp_all add: set_years_experience_def compute_years_experience_def
      mark_method_def mark_missing_def Let_def)

lemma set_has_required_skills_fields:
  "missing_features (set_has_required_skills r jd fv)
     = missing_features fv
       @ (if skills_or_requirements_absent r jd then [''has_required_skills''] else [])"
  "computation_method (set_has_required_skills r jd fv)
     = (if skills_or_requirements_absent r jd then computation_method fv
        else (computation_method fv)(''has_required_skills'' \<mapsto> ''deterministic_rule''))"
  "quantitative (set_has_required_skills r jd fv) = quantitative fv"
  "categorical (set_has_required_skills r jd fv)
     = (categorical fv)\<lparr>has_required_skills :=
          Some (\<not> skills_or_requirements_absent r jd
                \<and> list_all (\<lambda>s. s \<in> set (map lower (skills r))) (map lower (required_skills jd)))\<rparr>"
  by (simp_all add: set_has_required_skills_def compute_has_required_skills_def
      skills_or_requirements_absent_def mark_method_def mark_missing_def)

lemma set_has_required_degree_fields:
  "missing_features (set_has_required_degree r jd fv)
     = missing_features fv @ (if no_required_education jd then [''has_required_degree''] else [])"
  "computation_method (set_has_required_degree r jd fv)
     = (if no_required_education jd \<or> education r = [] then computation_method fv
        else (computation_method fv)(''has_required_degree'' \<mapsto> ''deterministic_rule''))"
  "quantitative (set_has_required_degree r jd fv) = quantitative fv"
  "categorical (set_has_required_degree r jd fv)
     = (categorical fv)\<lparr>has_required_degree :=
          Some (\<not> no_required_education jd \<and> education r \<noteq> []
                \<and> list_ex (degree_matches (lower (the (required_education jd)))) (education r))\<rparr>"
  by (simp_all add: set_has_required_degree_def compute_has_required_degree_def
      no_required_education_def mark_method_def mark_missing_def split: option.splits)

lemmas set_fields = set_skills_count_fields set_keyword_match_count_fields
  set_resume_length_words_fields set_years_experience_fields set_has_required_skills_fields
  set_has_required_degree_fields



lemma extract_quantitative:
  "quantitative (extract_features r jd) =
     \<lparr>years_experience = Some (if work_experience r = [] then 0
                               else real (length (filter has_dates (work_experience r)))),
      skills_count = Some (length (skills r)),
      keyword_match_count =
        Some (if skills_or_requirements_absent r jd then 0
              else count_matches (map lower (skills r)) (map lower (required_skills jd))),
      resume_length_words =
        Some (if no_word_count r then 0
              else word_count r)\<rparr>"
  by (simp add: extract_features_def set_fields new_feature_vector_def)

lemma extract_categorical:
  "categorical (extract_features r jd) =
     \<lparr>has_required_skills =
        Some (\<not> skills_or_requirements_absent r jd
              \<and> list_all (\<lambda>s. s \<in> set (map lower (skills r))) (map lower (required_skills jd))),
      has_required_degree =
        Some (\<not> no_required_education jd \<and> education r \<noteq> []
              \<and> list_ex (degree_matches (lower (the (required_education jd)))) (education r))\<rparr>"
  by (simp add: extract_features_def set_fields new_feature_vector_def)






section \<open>ATS simulator: the compatibility score\<close>

lemma check_required_fields_fst:
  "fst (check_required_fields r res) =
     \<lparr>st_email = field_present (email r), st_phone = field_present (phone r),
      st_work_history = (work_experience r \<noteq> []), st_education = (education r \<noteq> []),
      all_present = (field_present (email r) \<and> field_present (phone r) \<and> work_experience r \<noteq> [])\<rparr>"
  by (simp add: check_required_fields_def Let_def)

lemma check_required_fields_snd:
  "snd (check_required_fields r res) = res\<lparr>rejection_reasons := rejection_reasons res @ field_reasons r\<rparr>"
  by (simp add: check_required_fields_def field_reasons_def reject_def Let_def)

lemma check_hard_filters_fst:
  "fst (check_hard_filters fv res) =
     \<lparr>experience_met = has_required_skills (categorical fv),
      education_met = has_required_degree (categorical fv),
      certifications_met = None,
      all_met = (case (has_required_skills (categorical fv), has_required_degree (categorical fv)) of
                   (Some a, Some b) \<Rightarrow> Some (a \<and> b)
                 | (Some a, None) \<Rightarrow> Some a
                 | (None, Some b) \<Rightarrow> Some b
                 | (None, None) \<Rightarrow> None)\<rparr>"
  by (simp add: check_hard_filters_def Let_def)

lemma check_hard_filters_snd:
  "snd (check_hard_filters fv res) = res\<lparr>rejection_reasons := rejection_reasons res @ filter_reasons fv\<rparr>"
  by (simp add: check_hard_filters_def filter_reasons_def reject_def Let_def)

lemma compute_keyword_matching_totals:
  "total_required (fst (compute_keyword_matching r jd fv res)) = length (required_skills jd)"
  "total_matched (fst (compute_keyword_matching r jd fv res)) =
     (if required_skills jd = [] then 0
      else case keyword_match_count (quantitative fv) of
             None \<Rightarrow> length (filter (\<lambda>k. lower k \<in> set (map lower (skills r))) (required_skills jd))
           | Some c \<Rightarrow> c)"
  by (simp_all add: compute_keyword_matching_def Let_def split: option.splits)

lemma compute_keyword_matching_snd:
  "snd (compute_keyword_matching r jd fv res)
     = res\<lparr>rejection_reasons := rejection_reasons res @ keyword_reasons r jd fv\<rparr>"
  by (simp add: compute_keyword_matching_def keyword_reasons_def reject_def Let_def
      split: option.splits)

lemma set_required_fields_status_fields:
  "required_fields_status (set_required_fields_status r res) =
     \<lparr>st_email = field_present (email r), st_phone = field_present (phone r),
      st_work_history = (work_experience r \<noteq> []), st_education = (education r \<noteq> []),
      all_present = (field_present (email r) \<and> field_present (phone r) \<and> work_experience r \<noteq> [])\<rparr>"
  "rejection_reasons (set_required_fields_status r res) = rejection_reasons res @ field_reasons r"
  "hard_filters (set_required_fields_status r res) = hard_filters res"
  "keyword_breakdown (set_required_fields_status r res) = keyword_breakdown res"
  "keyword_match_percentage (set_required_fields_status r res) = keyword_match_percentage res"
  by (simp_all add: set_required_fields_status_def split_def check_required_fields_fst
      check_required_fields_snd)

lemma set_hard_filters_fields:
  "required_fields_status (set_hard_filters fv res) = required_fields_status res"
  "rejection_reasons (set_hard_filters fv res) = rejection_reasons res @ filter_reasons fv"
  "hard_filters (set_hard_filters fv res) = Some (fst (check_hard_filters fv new_ats_result))"
  "keyword_breakdown (set_hard_filters fv res) = keyword_breakdown res"
  "keyword_match_percentage (set_hard_filters fv res) = keyword_match_percentage res"
  by (simp_all add: set_hard_filters_def split_def check_hard_filters_fst check_hard_filters_snd)

lemma set_keyword_breakdown_fields:
  "required_fields_status (set_keyword_breakdown r jd fv res) = required_fields_status res"
  "rejection_reasons (set_keyword_breakdown r jd fv res) = rejection_reasons res @ keyword_reasons r jd fv"
  "hard_filters (set_keyword_breakdown r jd fv res) = hard_filters res"
  "total_required (keyword_breakdown (set_keyword_breakdown r jd fv res)) = length (required_skills jd)"
  "total_matched (keyword_breakdown (set_keyword_breakdown r jd fv res)) =
     (if required_skills jd = [] then 0
      else case keyword_match_count (quantitative fv) of
             None \<Rightarrow> length (filter (\<lambda>k. lower k \<in> set (map lower (skills r))) (required_skills jd))
           | Some c \<Rightarrow> c)"
  by (simp_all add: set_keyword_breakdown_def split_def compute_keyword_matching_totals
      compute_keyword_matching_snd)

lemma set_keyword_match_percentage_fields:
  "required_fields_status (set_keyword_match_percentage res) = required_fields_status res"
  "rejection_reasons (set_keyword_match_percentage res) = rejection_reasons res"
  "hard_filters (set_keyword_match_percentage res) = hard_filters res"
  "keyword_breakdown (set_keyword_match_percentage res) = keyword_breakdown res"
  "keyword_match_percentage (set_keyword_match_percentage res)
     = calculate_keyword_match_percentage (keyword_breakdown res)"
  by (simp_all add: set_keyword_match_percentage_def)

lemma set_compatibility_score_fields:
  "required_fields_status (set_compatibility_score res) = required_fields_status res"
  "rejection_reasons (set_compatibility_score res) = rejection_reasons res"
  "hard_filters (set_compatibility_score res) = hard_filters res"
  "keyword_breakdown (set_compatibility_score res) = keyword_breakdown res"
  "keyword_match_percentage (set_compatibility_score res) = keyword_match_percentage res"
  "compatibility_score (set_compatibility_score res) = calculate_compatibility_score res"
  by (simp_all add: set_compatibility_score_def)

lemmas ats_fields = set_required_fields_status_fields set_hard_filters_fields
  set_keyword_breakdown_fields set_keyword_match_percentage_fields set_compatibility_score_fields

lemma round2_of_int: "round2 (of_int n) = of_int n"
  by (simp add: round2_def Let_def)

lemma round2_nonneg: "0 \<le> x \<Longrightarrow> 0 \<le> round2 x"
  by (simp add: round2_def Let_def)

lemma round2_nonpos:
  assumes "x \<le> 0"
  shows "round2 x \<le> 0"
proof -
  define f where "f = \<lfloor>x * 100\<rfloor>"
  define d where "d = x * 100 - of_int f"
  have y: "x * 100 \<le> 0" using assms by simp
  have fy: "of_int f \<le> x * 100" unfolding f_def by simp
  have f0: "real_of_int f \<le> 0" using fy y by linarith
  have up: "real_of_int (f + 1) \<le> 0" if "0 < d"
  proof -
    from that have "real_of_int f < 0" using y by (simp add: d_def)
    then have "f < 0" by simp
    then have "f + 1 \<le> 0" by simp
    then show ?thesis by (simp only: of_int_le_0_iff)
  qed
  have r: "round2 x = (if d < 1 / 2 then of_int f
                       else if 1 / 2 < d then of_int (f + 1)
                       else if even f then of_int f else of_int (f + 1)) / 100"
    by (simp add: round2_def Let_def f_def d_def)
  show ?thesis
  proof (cases "d < 1 / 2")
    case True
    then show ?thesis using r f0 by simp
  next
    case False
    then have "0 < d" by simp
    from up [OF this] f0 r show ?thesis by (simp split: if_splits)
  qed
qed

lemma floor_then_round: "max 0 (round2 x) = round2 (max 0 x)"
proof (cases "0 \<le> x")
  case True
  then show ?thesis using round2_nonneg [of x] by (simp add: max_def)
next
  case False
  then have "round2 x \<le> 0" using round2_nonpos [of x] by simp
  moreover have "round2 0 = 0" by (simp add: round2_def Let_def)
  ultimately show ?thesis using False by (simp add: max_def)
qed

lemma simulate_score:
  "compatibility_score (simulate r jd fv t) =
     max 0 (round2 (100
       - (if field_present (email r) then 0 else 25)
       - (if field_present (phone r) then 0 else 25)
       - (if work_experience r = [] then 30 else 0)
       - (if has_required_skills (categorical fv) = Some False then 20 else 0)
       - (if has_required_degree (categorical fv) = Some False then 15 else 0)
       - (if keyword_match_percentage (simulate r jd fv t) < 60
          then min 20 (60 - keyword_match_percentage (simulate r jd fv t)) else 0)))"
  by (simp add: simulate_def ats_fields calculate_compatibility_score_def
      check_hard_filters_fst Let_def min.commute)

lemma simulate_rejection_reasons:
  "rejection_reasons (simulate r jd fv t) = field_reasons r @ filter_reasons fv @ keyword_reasons r jd fv"
  by (simp add: simulate_def ats_fields new_ats_result_def)

lemma simulate_percentage:
  "keyword_match_percentage (simulate r jd fv t) =
     (if required_skills jd = [] then 100
      else round2 (real (total_matched (keyword_breakdown (simulate r jd fv t)))
                   / real (length (required_skills jd)) * 100))"
  by (simp add: simulate_def ats_fields calculate_keyword_match_percentage_def)

text \<open>
  Claim C4. The compatibility score of every ATS simulation is 100 less 25 for a missing
  email, 25 for a missing phone, 30 for missing work history, 20 for a failed experience
  filter, 15 for a failed education filter and, when the keyword match percentage is below
  60, the smaller of 20 and the shortfall; rounded to two decimals and floored at 0, in
  either order.
\<close>

theorem compatibility_score_formula:
  "compatibility_score (simulate r jd fv t) =
     max 0 (round2 (100
       - (if field_present (email r) then 0 else 25)
       - (if field_present (phone r) then 0 else 25)
       - (if work_experience r = [] then 30 else 0)
       - (if has_required_skills (categorical fv) = Some False then 20 else 0)
       - (if has_required_degree (categorical fv) = Some False then 15 else 0)
       - (if keyword_match_percentage (simulate r jd fv t) < 60
          then min 20 (60 - keyword_match_percentage (simulate r jd fv t)) else 0)))
   \<and> compatibility_score (simulate r jd fv t) =
     round2 (max 0 (100
       - (if field_present (email r) then 0 else 25)
       - (if field_present (phone r) then 0 else 25)
       - (if work_experience r = [] then 30 else 0)
       - (if has_required_skills (categorical fv) = Some False then 20 else 0)
       - (if has_required_degree (categorical fv) = Some False then 15 else 0)
       - (if keyword_match_percentage (simulate r jd fv t) < 60
          then min 20 (60 - keyword_match_percentage (simulate r jd fv t)) else 0)))"
  by (simp only: simulate_score floor_then_round simp_thms)

theorem compatibility_score_formula_witness:
  "compatibility_score (simulate no_contact_resume open_job new_feature_vector ''generic'') = 50
   \<and> length (rejection_reasons (simulate no_contact_resume open_job new_feature_vector ''generic'')) = 2"
  using compatibility_score_formula [of no_contact_resume open_job new_feature_vector "''generic''"]
    round2_of_int [of 50]
  by (simp add: simulate_percentage simulate_rejection_reasons field_reasons_def
      filter_reasons_def keyword_reasons_def field_present_def strip_def is_space_def
      no_contact_resume_def open_job_def new_feature_vector_def)

lemma simulate_hard_filters:
  "hard_filters (simulate r jd fv t) =
     Some \<lparr>experience_met = has_required_skills (categorical fv),
           education_met = has_required_degree (categorical fv),
           certifications_met = None,
           all_met = (case (has_required_skills (categorical fv), has_required_degree (categorical fv)) of
                        (Some a, Some b) \<Rightarrow> Some (a \<and> b)
                      | (Some a, None) \<Rightarrow> Some a
                      | (None, Some b) \<Rightarrow> Some b
                      | (None, None) \<Rightarrow> None)\<rparr>"
  by (simp add: simulate_def ats_fields check_hard_filters_fst)

lemma simulate_total_matched:
  "total_matched (keyword_breakdown (simulate r jd fv t)) =
     (if required_skills jd = [] then 0
      else case keyword_match_count (quantitative fv) of
             None \<Rightarrow> length (filter (\<lambda>k. lower k \<in> set (map lower (skills r))) (required_skills jd))
           | Some c \<Rightarrow> c)"
  by (simp add: simulate_def ats_fields)

text \<open>
  Claim C10. The feature extractor leaves no feature field unset, so the hard filters of
  the ATS simulator are all defined and the matched total of the keyword breakdown is the
  feature vector's \<open>keyword_match_count\<close>. When the job requires skills and the resume
  lists none, the experience filter fails, its rejection reason is recorded and the score
  carries the 20-point deduction (beside the 20 points for a keyword match of 0 percent).
\<close>

theorem features_always_defined:
  "years_experience (quantitative (extract_features r jd)) \<noteq> None
   \<and> skills_count (quantitative (extract_features r jd)) \<noteq> None
   \<and> keyword_match_count (quantitative (extract_features r jd)) \<noteq> None
   \<and> resume_length_words (quantitative (extract_features r jd)) \<noteq> None
   \<and> (\<exists>a b. categorical (extract_features r jd)
               = \<lparr>has_required_skills = Some a, has_required_degree = Some b\<rparr>
            \<and> hard_filters (simulate r jd (extract_features r jd) t)
               = Some \<lparr>experience_met = Some a, education_met = Some b,
                       certifications_met = None, all_met = Some (a \<and> b)\<rparr>)
   \<and> Some (total_matched (keyword_breakdown (simulate r jd (extract_features r jd) t)))
       = keyword_match_count (quantitative (extract_features r jd))
   \<and> (required_skills jd \<noteq> [] \<and> skills r = [] \<longrightarrow>
        (\<exists>b. hard_filters (simulate r jd (extract_features r jd) t)
               = Some \<lparr>experience_met = Some False, education_met = Some b,
                       certifications_met = None, all_met = Some False\<rparr>
            \<and> ''Hard filter failed: missing required skills''
                 \<in> set (rejection_reasons (simulate r jd (extract_features r jd) t))
            \<and> compatibility_score (simulate r jd (extract_features r jd) t) =
                 max 0 (round2 (100
                   - (if field_present (email r) then 0 else 25)
                   - (if field_present (phone r) then 0 else 25)
                   - (if work_experience r = [] then 30 else 0)
                   - 20
                   - (if b then 0 else 15)
                   - 20))))"
proof -
  let ?F = "extract_features r jd"
  let ?S = "simulate r jd ?F t"
  have q: "years_experience (quantitative ?F) \<noteq> None" "skills_count (quantitative ?F) \<noteq> None"
    "keyword_match_count (quantitative ?F) \<noteq> None" "resume_length_words (quantitative ?F) \<noteq> None"
    by (simp_all add: extract_quantitative)
  obtain a b where c: "categorical ?F = \<lparr>has_required_skills = Some a, has_required_degree = Some b\<rparr>"
    using extract_categorical [of r jd] by blast
  have hf: "hard_filters ?S = Some \<lparr>experience_met = Some a, education_met = Some b,
                                   certifications_met = None, all_met = Some (a \<and> b)\<rparr>"
    by (simp add: simulate_hard_filters c)
  have tm: "Some (total_matched (keyword_breakdown ?S)) = keyword_match_count (quantitative ?F)"
    by (simp add: simulate_total_matched extract_quantitative skills_or_requirements_absent_def)
  have special: "hard_filters ?S = Some \<lparr>experience_met = Some False, education_met = Some b,
                       certifications_met = None, all_met = Some False\<rparr>
            \<and> ''Hard filter failed: missing required skills'' \<in> set (rejection_reasons ?S)
            \<and> compatibility_score ?S =
                 max 0 (round2 (100
                   - (if field_present (email r) then 0 else 25)
                   - (if field_present (phone r) then 0 else 25)
                   - (if work_experience r = [] then 30 else 0)
                   - 20
                   - (if b then 0 else 15)
                   - 20))"
    if h: "required_skills jd \<noteq> []" "skills r = []"
  proof -
    from c h have a: "a = False"
      by (simp add: extract_categorical skills_or_requirements_absent_def)
    have m: "total_matched (keyword_breakdown ?S) = 0"
      using h by (simp add: simulate_total_matched extract_quantitative
          skills_or_requirements_absent_def)
    have "round2 0 = 0" using round2_of_int [of 0] by simp
    then have p: "keyword_match_percentage ?S = 0"
      using h m by (simp add: simulate_percentage)
    have s: "compatibility_score ?S =
                 max 0 (round2 (100
                   - (if field_present (email r) then 0 else 25)
                   - (if field_present (phone r) then 0 else 25)
                   - (if work_experience r = [] then 30 else 0)
                   - 20
                   - (if b then 0 else 15)
                   - 20))"
      by (simp add: simulate_score [of r jd ?F t] p c a)
    have "''Hard filter failed: missing required skills'' \<in> set (rejection_reasons ?S)"
      by (simp add: simulate_rejection_reasons filter_reasons_def c a)
    with hf a s show ?thesis by simp
  qed
  from q c hf tm special show ?thesis by blast
qed

theorem features_always_defined_witness:
  "required_skills python_job \<noteq> [] \<and> skills bare_resume = []
   \<and> compatibility_score (simulate bare_resume python_job
                            (extract_features bare_resume python_job) ''generic'') = 45
   \<and> keyword_match_count (quantitative (extract_features bare_resume python_job)) = Some 0"
proof -
  have c: "categorical (extract_features bare_resume python_job)
           = \<lparr>has_required_skills = Some False, has_required_degree = Some False\<rparr>"
    by (simp add: extract_categorical skills_or_requirements_absent_def no_required_education_def
        bare_resume_def python_job_def)
  have h: "required_skills python_job \<noteq> [] \<and> skills bare_resume = []"
    by (simp add: bare_resume_def python_job_def)
  from features_always_defined [of bare_resume python_job "''generic''"] h
  obtain b where hf: "hard_filters (simulate bare_resume python_job
                        (extract_features bare_resume python_job) ''generic'')
               = Some \<lparr>experience_met = Some False, education_met = Some b,
                       certifications_met = None, all_met = Some False\<rparr>"
    and sc: "compatibility_score (simulate bare_resume python_job
                            (extract_features bare_resume python_job) ''generic'') =
                 max 0 (round2 (100
                   - (if field_present (email bare_resume) then 0 else 25)
                   - (if field_present (phone bare_resume) then 0 else 25)
                   - (if work_experience bare_resume = [] then 30 else 0)
                   - 20
                   - (if b then 0 else 15)
                   - 20))"
    by blast
  from hf have "b = False" by (simp add: simulate_hard_filters c)
  with sc have "compatibility_score (simulate bare_resume python_job
                            (extract_features bare_resume python_job) ''generic'') = 45"
    using round2_of_int [of 45]
    by (simp add: field_present_def strip_def is_space_def bare_resume_def)
  moreover have "keyword_match_count (quantitative (extract_features bare_resume python_job)) = Some 0"
    by (simp add: extract_quantitative skills_or_requirements_absent_def bare_resume_def)
  ultimately show ?thesis using h by simp
qed

section \<open>Recommendation ranking\<close>




section \<open>Orchestrator: every stage runs\<close>

lemma run_stage_fields:
  "results (fst (run_stage clock (c, n) (name, m))) = snd (m (results c))"
  "stage_statuses (fst (run_stage clock (c, n) (name, m)))
     = (stage_statuses c)(name \<mapsto> final_status (fst (m (results c))))"
  "stage_timings (fst (run_stage clock (c, n) (name, m)))
     = (stage_timings c)(name \<mapsto> clock (n + 1) - clock n)"
  "start_time (fst (run_stage clock (c, n) (name, m))) = start_time c"
  "snd (run_stage clock (c, n) (name, m)) = n + 2"
  by (auto simp add: run_stage_def final_status_def Let_def split_def split: outcome.splits)

lemma run_stage_pair:
  "run_stage clock (c, n) (name, m) = (fst (run_stage clock (c, n) (name, m)), n + 2)"
  using run_stage_fields(5) [of clock c n name m] by (metis prod.collapse)

lemma run_stages:
  assumes "length names = length ms" and "distinct names"
  shows "results (fst (foldl (run_stage clock) (c, n) (zip names ms))) = results_after ms (results c)
    \<and> start_time (fst (foldl (run_stage clock) (c, n) (zip names ms))) = start_time c
    \<and> (\<forall>i < length ms.
          stage_statuses (fst (foldl (run_stage clock) (c, n) (zip names ms))) (names ! i)
            = Some (final_status (fst ((ms ! i) (results_after (take i ms) (results c)))))
          \<and> stage_timings (fst (foldl (run_stage clock) (c, n) (zip names ms))) (names ! i)
            = Some (clock (n + 2 * i + 1) - clock (n + 2 * i)))
    \<and> (\<forall>k. k \<notin> set names \<longrightarrow>
          stage_statuses (fst (foldl (run_stage clock) (c, n) (zip names ms))) k = stage_statuses c k
          \<and> stage_timings (fst (foldl (run_stage clock) (c, n) (zip names ms))) k = stage_timings c k)"
  using assms
proof (induction names ms arbitrary: c n rule: list_induct2)
  case Nil
  then show ?case by (simp add: results_after_def)
next
  case (Cons name names m ms)
  let ?c1 = "fst (run_stage clock (c, n) (name, m))"
  let ?out = "fst (foldl (run_stage clock) (?c1, n + 2) (zip names ms))"
  have unfold: "foldl (run_stage clock) (c, n) (zip (name # names) (m # ms))
                = foldl (run_stage clock) (?c1, n + 2) (zip names ms)"
    using run_stage_pair [of clock c n name m] by simp
  from Cons.prems have d: "distinct names" and nm: "name \<notin> set names" by simp_all
  note IH = Cons.IH [OF d, of ?c1 "n + 2"]
  from IH have r: "results ?out = results_after ms (results ?c1)" by blast
  from IH have st: "start_time ?out = start_time ?c1" by blast
  from IH have idx: "\<And>i. i < length ms \<Longrightarrow>
          stage_statuses ?out (names ! i)
            = Some (final_status (fst ((ms ! i) (results_after (take i ms) (results ?c1)))))
          \<and> stage_timings ?out (names ! i)
            = Some (clock (n + 2 + 2 * i + 1) - clock (n + 2 + 2 * i))" by blast
  from IH have other: "\<And>k. k \<notin> set names \<Longrightarrow>
          stage_statuses ?out k = stage_statuses ?c1 k
          \<and> stage_timings ?out k = stage_timings ?c1 k" by blast
  have res1: "results ?c1 = snd (m (results c))" by (simp add: run_stage_fields)
  have a: "results ?out = results_after (m # ms) (results c)"
    using r res1 by (simp add: results_after_def)
  have b: "start_time ?out = start_time c" using st by (simp add: run_stage_fields)
  have c: "stage_statuses ?out ((name # names) ! i)
            = Some (final_status (fst (((m # ms) ! i) (results_after (take i (m # ms)) (results c)))))
          \<and> stage_timings ?out ((name # names) ! i)
            = Some (clock (n + 2 * i + 1) - clock (n + 2 * i))"
    if "i < length (m # ms)" for i
  proof (cases i)
    case 0
    with other [OF nm] show ?thesis by (simp add: run_stage_fields results_after_def)
  next
    case (Suc j)
    with that have "j < length ms" by simp
    from idx [OF this] res1 Suc show ?thesis by (simp add: results_after_def)
  qed
  have e: "stage_statuses ?out k = stage_statuses c k \<and> stage_timings ?out k = stage_timings c k"
    if "k \<notin> set (name # names)" for k
  proof -
    from that have "k \<notin> set names" and "k \<noteq> name" by simp_all
    with other [of k] show ?thesis by (simp add: run_stage_fields)
  qed
  from a b c e show ?case unfolding unfold by blast
qed

lemma stage_names_facts: "length stage_names = 7" "distinct stage_names"
  by (simp_all add: stage_names_def)

lemma final_status_cases: "final_status out = ''success'' \<or> final_status out = ''failed''"
  by (cases out) (simp_all add: final_status_def)

text \<open>
  Claim C9. With its seven stage methods, whatever each of them does, the orchestrator
  runs every stage once and in order (the results are those of all seven methods applied
  in turn); each stage ends with status \<open>success\<close>, or \<open>failed\<close> when its method raised,
  and the difference of the two clock readings around it is recorded as its timing.
\<close>

theorem orchestrator_runs_every_stage:
  assumes "length methods = 7"
  shows "results (run utcnow clock methods ctx) = results_after methods (results ctx)
   \<and> (\<forall>i < 7.
         stage_statuses (run utcnow clock methods ctx) (stage_names ! i)
           = Some (final_status (fst ((methods ! i) (results_after (take i methods) (results ctx)))))
         \<and> stage_timings (run utcnow clock methods ctx) (stage_names ! i)
           = Some (clock (2 * i + 1) - clock (2 * i)))
   \<and> (\<forall>name \<in> set stage_names.
         (stage_statuses (run utcnow clock methods ctx) name = Some ''success''
          \<or> stage_statuses (run utcnow clock methods ctx) name = Some ''failed'')
         \<and> stage_timings (run utcnow clock methods ctx) name \<noteq> None)"
proof -
  let ?c0 = "if start_time ctx = None then ctx\<lparr>start_time := Some utcnow\<rparr> else ctx"
  have out: "run utcnow clock methods ctx
             = fst (foldl (run_stage clock) (?c0, 0) (zip stage_names methods))"
    by (simp add: run_def Let_def)
  have len: "length stage_names = length methods" using assms by (simp add: stage_names_facts)
  note L = run_stages [OF len stage_names_facts(2), of clock ?c0 0]
  have r0: "results ?c0 = results ctx" by simp
  from L have a: "results (run utcnow clock methods ctx) = results_after methods (results ctx)"
    unfolding out r0 by blast
  from L have b: "\<And>i. i < 7 \<Longrightarrow>
         stage_statuses (run utcnow clock methods ctx) (stage_names ! i)
           = Some (final_status (fst ((methods ! i) (results_after (take i methods) (results ctx)))))
         \<and> stage_timings (run utcnow clock methods ctx) (stage_names ! i)
           = Some (clock (2 * i + 1) - clock (2 * i))"
    unfolding out r0 using assms by simp
  have c: "(stage_statuses (run utcnow clock methods ctx) name = Some ''success''
          \<or> stage_statuses (run utcnow clock methods ctx) name = Some ''failed'')
         \<and> stage_timings (run utcnow clock methods ctx) name \<noteq> None"
    if "name \<in> set stage_names" for name
  proof -
    from that obtain i where i: "i < 7" "name = stage_names ! i"
      by (auto simp add: in_set_conv_nth stage_names_facts)
    from b [OF i(1)] i(2)
      final_status_cases [of "fst ((methods ! i) (results_after (take i methods) (results ctx)))"]
    show ?thesis by auto
  qed
  from a b c show ?thesis by blast
qed

theorem orchestrator_runs_every_stage_witness:
  "length logging_methods = 7
   \<and> results (run 0 real logging_methods fresh_context)
       = [''parsing'', ''feature_extraction'', ''ats_simulation'', ''recruiter_evaluation'',
          ''interview_readiness'', ''explainability'']
   \<and> stage_statuses (run 0 real logging_methods fresh_context) ''ats_simulation'' = Some ''failed''
   \<and> stage_statuses (run 0 real logging_methods fresh_context) ''recruiter_evaluation''
       = Some ''success''
   \<and> stage_timings (run 0 real logging_methods fresh_context) ''scoring'' = Some 1"
proof -
  have len: "length logging_methods = 7" by (simp add: logging_methods_def)
  note T = orchestrator_runs_every_stage [OF len, of 0 real fresh_context]
  from T have r: "results (run 0 real logging_methods fresh_context)
                  = results_after logging_methods (results fresh_context)" by blast
  from T have i2: "stage_statuses (run 0 real logging_methods fresh_context) (stage_names ! 2)
           = Some (final_status (fst ((logging_methods ! 2)
                     (results_after (take 2 logging_methods) (results fresh_context)))))" by simp
  from T have i3: "stage_statuses (run 0 real logging_methods fresh_context) (stage_names ! 3)
           = Some (final_status (fst ((logging_methods ! 3)
                     (results_after (take 3 logging_methods) (results fresh_context)))))" by simp
  from T have i5: "stage_timings (run 0 real logging_methods fresh_context) (stage_names ! 5)
           = Some (real (2 * 5 + 1) - real (2 * 5))" by simp
  from r have "results (run 0 real logging_methods fresh_context)
       = [''parsing'', ''feature_extraction'', ''ats_simulation'', ''recruiter_evaluation'',
          ''interview_readiness'', ''explainability'']"
    by (simp add: results_after_def logging_methods_def fresh_context_def)
  moreover from i2 have "stage_statuses (run 0 real logging_methods fresh_context) ''ats_simulation''
                         = Some ''failed''"
    by (simp add: stage_names_def logging_methods_def final_status_def)
  moreover from i3 have "stage_statuses (run 0 real logging_methods fresh_context)
                           ''recruiter_evaluation'' = Some ''success''"
    by (simp add: stage_names_def logging_methods_def final_status_def)
  moreover from i5 have "stage_timings (run 0 real logging_methods fresh_context) ''scoring'' = Some 1"
    by (simp add: stage_names_def)
  ultimately show ?thesis using len by simp
qed

lemma orchestrator_stubs_all_fail:
  "name \<in> set stage_names \<Longrightarrow>
     stage_statuses (run utcnow clock orchestrator_methods ctx) name = Some ''failed''"
proof -
  assume "name \<in> set stage_names"
  then obtain i where i: "i < 7" "name = stage_names ! i"
    by (auto simp add: in_set_conv_nth stage_names_facts)
  let ?c0 = "if start_time ctx = None then ctx\<lparr>start_time := Some utcnow\<rparr> else ctx"
  have len: "length stage_names = length (orchestrator_methods :: 'a stage_method list)"
    by (simp add: stage_names_facts orchestrator_methods_def)
  from run_stages [OF len stage_names_facts(2), of clock ?c0 0] i
  show ?thesis
    by (simp add: run_def Let_def orchestrator_methods_def final_status_def)
qed

section \<open>Interview evaluator: claim extraction\<close>

lemma strip_Nil: "strip [] = []"
  by (simp add: strip_def)

lemma strip_leading:
  assumes "\<forall>x \<in> set w. is_space x"
  shows "strip (w @ t) = strip t"
  using assms by (simp add: strip_def dropWhile_append2)

lemma strip_trailing:
  assumes "\<forall>x \<in> set w. is_space x"
  shows "strip (t @ w) = strip t"
proof (cases "\<forall>x \<in> set t. is_space x")
  case True
  with assms have a: "dropWhile is_space (t @ w) = []" and b: "dropWhile is_space t = []"
    by simp_all
  show ?thesis unfolding strip_def by (simp only: a b)
next
  case False
  then have "dropWhile is_space (t @ w) = dropWhile is_space t @ w"
    by (auto simp add: dropWhile_append1)
  moreover have "dropWhile is_space (rev w @ rev (dropWhile is_space t))
                 = dropWhile is_space (rev (dropWhile is_space t))"
    using assms by (intro dropWhile_append2) simp
  ultimately show ?thesis by (simp add: strip_def)
qed

lemma strip_empty_all_space:
  assumes "strip t = []"
  shows "\<forall>x \<in> set t. is_space x"
proof -
  from assms have "dropWhile is_space (rev (dropWhile is_space t)) = []"
    by (simp add: strip_def)
  then have a: "\<forall>x \<in> set (dropWhile is_space t). is_space x"
    by (simp add: dropWhile_eq_Nil_conv)
  have "dropWhile is_space t = []"
  proof (rule ccontr)
    assume n: "dropWhile is_space t \<noteq> []"
    then have "\<not> is_space (hd (dropWhile is_space t))" by (rule hd_dropWhile)
    moreover from n have "hd (dropWhile is_space t) \<in> set (dropWhile is_space t)" by simp
    ultimately show False using a by blast
  qed
  then show ?thesis by (simp add: dropWhile_eq_Nil_conv)
qed

lemma delimiter_not_space: "is_delimiter c \<Longrightarrow> \<not> is_space c"
  by (auto simp add: is_delimiter_def is_space_def bullet_def)

lemma delimiters_not_space: "\<forall>d \<in> set [CHR ''-'', bullet, CHR ''*'']. \<not> is_space d"
  by (simp add: is_space_def bullet_def)

lemma newline_is_space: "is_space (CHR 0x0A)"
  by (simp add: is_space_def)

lemma newline_not_delimiter: "\<not> is_delimiter (CHR 0x0A)"
  by (simp add: is_delimiter_def bullet_def)

lemma cls_match_Spc: "cls_match ic Spc = is_space"
  by (rule ext) simp

lemma greedy_run_hd:
  "\<exists>ms. greedy_run P q s = (rev (takeWhile P s) @ q, dropWhile P s) # ms
        \<and> (\<forall>m \<in> set ms. snd m \<noteq> [] \<and> P (hd (snd m)))"
proof (induction s arbitrary: q)
  case Nil
  show ?case by simp
next
  case (Cons c cs)
  show ?case
  proof (cases "P c")
    case True
    from Cons.IH [of "c # q"] obtain ms where
      m: "greedy_run P (c # q) cs = (rev (takeWhile P cs) @ c # q, dropWhile P cs) # ms"
      and t: "\<forall>m \<in> set ms. snd m \<noteq> [] \<and> P (hd (snd m))" by blast
    from True m have "greedy_run P q (c # cs)
        = (rev (takeWhile P (c # cs)) @ q, dropWhile P (c # cs)) # (ms @ [(q, c # cs)])"
      by simp
    moreover from True t have "\<forall>m \<in> set (ms @ [(q, c # cs)]). snd m \<noteq> [] \<and> P (hd (snd m))"
      by simp
    ultimately show ?thesis by blast
  next
    case False
    then show ?thesis by simp
  qed
qed

text \<open>A delimiter followed by whitespace, at a given matcher state.\<close>

lemma delimiter_then_spaces:
  "rmatch False (Cat (Atom (OneOf ds)) (Star Spc)) (q, s, g)
   = (case s of [] \<Rightarrow> []
      | d # r \<Rightarrow> if d \<in> set ds then map (\<lambda>(p', s'). (p', s', g)) (greedy_run is_space (d # q) r)
                 else [])"
  by (simp add: cls_match_Spc split: list.splits)

lemma spaces_then_delimiter:
  assumes "\<forall>d \<in> set ds. \<not> is_space d"
  shows "rmatch False (Cat (Star Spc) (Cat (Atom (OneOf ds)) (Star Spc))) (q, s, g)
         = rmatch False (Cat (Atom (OneOf ds)) (Star Spc))
             (rev (takeWhile is_space s) @ q, dropWhile is_space s, g)"
proof -
  let ?F = "rmatch False (Cat (Atom (OneOf ds)) (Star Spc))"
  from greedy_run_hd [of is_space q s] obtain ms where
    m: "greedy_run is_space q s = (rev (takeWhile is_space s) @ q, dropWhile is_space s) # ms"
    and t: "\<forall>m \<in> set ms. snd m \<noteq> [] \<and> is_space (hd (snd m))" by blast
  have "?F (p', s', g) = []" if "(p', s') \<in> set ms" for p' s'
  proof -
    from t that have "s' \<noteq> []" "is_space (hd s')" by auto
    then obtain x xs where "s' = x # xs" "is_space x" by (cases s') auto
    with assms have "x \<notin> set ds" by blast
    with \<open>s' = x # xs\<close> show ?thesis by (simp only: delimiter_then_spaces) simp
  qed
  then have z: "concat (map ?F (map (\<lambda>(p', s'). (p', s', g)) ms)) = []"
    by auto
  have "rmatch False (Cat (Star Spc) (Cat (Atom (OneOf ds)) (Star Spc))) (q, s, g)
        = concat (map ?F (map (\<lambda>(p', s'). (p', s', g)) (greedy_run is_space q s)))"
    by (simp add: cls_match_Spc)
  also have "\<dots> = ?F (rev (takeWhile is_space s) @ q, dropWhile is_space s, g)"
    using z by (simp only: m) simp
  finally show ?thesis .
qed

lemma bullet_pattern_unfold:
  "rmatch False bullet_pattern (p, s, g)
   = rmatch False (Cat (Atom (OneOf [bullet, CHR ''-'', CHR ''*''])) (Star Spc)) (p, s, g)
     @ (case s of [] \<Rightarrow> []
        | c # cs \<Rightarrow> if c = CHR 0x0A
                    then rmatch False (Cat (Star Spc)
                           (Cat (Atom (OneOf [CHR ''-'', bullet, CHR ''*''])) (Star Spc)))
                           (c # p, cs, g)
                    else [])"
  by (simp add: bullet_pattern_def split: list.splits)

lemma delimiter_set:
  "c \<in> set [bullet, CHR ''-'', CHR ''*''] \<longleftrightarrow> is_delimiter c"
  "c \<in> set [CHR ''-'', bullet, CHR ''*''] \<longleftrightarrow> is_delimiter c"
  by (auto simp add: is_delimiter_def)

text \<open>What the pattern matches at a position: a delimiter with the whitespace after it;
  or a newline, whitespace, a delimiter and the whitespace after it; nothing else.\<close>

lemma match_at_delimiter:
  assumes "is_delimiter c"
  shows "\<exists>ms. rmatch False bullet_pattern (p, c # cs, g)
              = (rev (takeWhile is_space cs) @ c # p, dropWhile is_space cs, g) # ms"
proof -
  from greedy_run_hd [of is_space "c # p" cs] obtain ms where
    m: "greedy_run is_space (c # p) cs
        = (rev (takeWhile is_space cs) @ c # p, dropWhile is_space cs) # ms" by blast
  have "rmatch False (Cat (Atom (OneOf [bullet, CHR ''-'', CHR ''*''])) (Star Spc)) (p, c # cs, g)
        = map (\<lambda>(p', s'). (p', s', g)) (greedy_run is_space (c # p) cs)"
    using assms by (simp only: delimiter_then_spaces delimiter_set) simp
  then show ?thesis
    by (simp only: bullet_pattern_unfold m) simp
qed

lemma match_at_newline:
  assumes "dropWhile is_space cs = d # r" and "is_delimiter d"
  shows "\<exists>ms. rmatch False bullet_pattern (p, CHR 0x0A # cs, g)
              = (rev (takeWhile is_space r) @ d # rev (takeWhile is_space cs) @ CHR 0x0A # p,
                 dropWhile is_space r, g) # ms"
proof -
  note ns = delimiters_not_space
  from greedy_run_hd [of is_space "d # rev (takeWhile is_space cs) @ CHR 0x0A # p" r]
  obtain ms where
    m: "greedy_run is_space (d # rev (takeWhile is_space cs) @ CHR 0x0A # p) r
        = (rev (takeWhile is_space r) @ d # rev (takeWhile is_space cs) @ CHR 0x0A # p,
           dropWhile is_space r) # ms" by blast
  have a: "rmatch False (Cat (Atom (OneOf [bullet, CHR ''-'', CHR ''*''])) (Star Spc))
             (p, CHR 0x0A # cs, g) = []"
    using newline_not_delimiter by (simp only: delimiter_then_spaces delimiter_set) simp
  have "rmatch False (Cat (Star Spc) (Cat (Atom (OneOf [CHR ''-'', bullet, CHR ''*''])) (Star Spc)))
          (CHR 0x0A # p, cs, g)
        = map (\<lambda>(p', s'). (p', s', g))
            (greedy_run is_space (d # rev (takeWhile is_space cs) @ CHR 0x0A # p) r)"
    using assms
    by (simp only: spaces_then_delimiter [OF ns] delimiter_then_spaces delimiter_set) simp
  then show ?thesis
    by (simp only: bullet_pattern_unfold a m) simp
qed

lemma no_match:
  assumes "\<not> is_delimiter c"
    and "c = CHR 0x0A \<Longrightarrow> dropWhile is_space cs = [] \<or> \<not> is_delimiter (hd (dropWhile is_space cs))"
  shows "rmatch False bullet_pattern (p, c # cs, g) = []"
proof -
  note ns = delimiters_not_space
  have a: "rmatch False (Cat (Atom (OneOf [bullet, CHR ''-'', CHR ''*''])) (Star Spc))
             (p, c # cs, g) = []"
    using assms(1) by (simp only: delimiter_then_spaces delimiter_set) simp
  have b: "rmatch False (Cat (Star Spc) (Cat (Atom (OneOf [CHR ''-'', bullet, CHR ''*''])) (Star Spc)))
          (c # p, cs, g) = []" if "c = CHR 0x0A"
  proof (cases "dropWhile is_space cs")
    case Nil
    show ?thesis
      by (simp only: spaces_then_delimiter [OF ns] delimiter_then_spaces Nil list.case)
  next
    case (Cons d r)
    with assms(2) [OF that] have "\<not> is_delimiter d" by simp
    then show ?thesis
      by (simp only: spaces_then_delimiter [OF ns] delimiter_then_spaces delimiter_set Cons
          list.case if_False)
  qed
  show ?thesis
    using a b by (simp only: bullet_pattern_unfold) simp
qed

lemma split_at_skip:
  "length xs = k \<Longrightarrow> split_at r k cur p (xs @ ys) = split_at r 0 cur (rev xs @ p) ys"
proof (induction xs arbitrary: k p)
  case Nil
  then show ?case by simp
next
  case (Cons x xs)
  then obtain k' where k: "k = Suc k'" "length xs = k'" by (cases k) auto
  with Cons.IH [of k' "x # p"] show ?case by simp
qed

lemma split_on_delimiters_skip:
  "\<forall>x \<in> set xs. \<not> is_delimiter x \<Longrightarrow>
   split_on_delimiters cur (xs @ ys) = split_on_delimiters (rev xs @ cur) ys"
  by (induction xs arbitrary: cur) simp_all

lemma spaces_skip:
  "split_on_delimiters cur s
   = split_on_delimiters (rev (takeWhile is_space s) @ cur) (dropWhile is_space s)"
proof -
  have "\<forall>x \<in> set (takeWhile is_space s). \<not> is_delimiter x"
    using delimiter_not_space by (auto dest: set_takeWhileD)
  from split_on_delimiters_skip [OF this, of cur "dropWhile is_space s"] show ?thesis
    by simp
qed

text \<open>
  The pieces \<open>re.split\<close> produces and the pieces between the delimiter characters differ
  only in whitespace at their ends: the pattern takes the whitespace after a delimiter, and
  the newline and whitespace before one, into the match.
\<close>

lemma split_at_refines:
  assumes "\<forall>x \<in> set w. is_space x"
  shows "map strip (split_at bullet_pattern 0 cur p s)
         = map strip (split_on_delimiters (cur @ w) s)"
  using assms
proof (induction "length s" arbitrary: s cur p w rule: less_induct)
  case less
  note w = less.prems
  from w have rw: "\<forall>x \<in> set (rev w). is_space x" by simp
  show ?case
  proof (cases s)
    case Nil
    with strip_leading [OF rw, of "rev cur"] show ?thesis by simp
  next
    case (Cons c cs)
    let ?tw = "takeWhile is_space cs" and ?dw = "dropWhile is_space cs"
    have sp_tw: "\<forall>x \<in> set (rev (takeWhile is_space t)). is_space x" for t
      by (auto dest: set_takeWhileD)
    have len_dw: "length (dropWhile is_space t) \<le> length t" for t
      by (simp add: length_dropWhile_le)
    have head: "strip (rev (cur @ w)) = strip (rev cur)"
      using strip_leading [OF rw, of "rev cur"] by simp
    consider (delim) "is_delimiter c"
      | (newline) d r where "\<not> is_delimiter c" "c = CHR 0x0A" "?dw = d # r" "is_delimiter d"
      | (plain) "\<not> is_delimiter c"
          "c = CHR 0x0A \<Longrightarrow> ?dw = [] \<or> \<not> is_delimiter (hd ?dw)"
      by (cases ?dw) auto
    then show ?thesis
    proof cases
      case delim
      from match_at_delimiter [OF delim, of p cs None] obtain ms where
        m: "rmatch False bullet_pattern (p, c # cs, None) = (rev ?tw @ c # p, ?dw, None) # ms"
        by blast
      have "split_at bullet_pattern 0 cur p (c # cs)
            = rev cur # split_at bullet_pattern (length ?tw) [] (c # p) (?tw @ ?dw)"
        by (simp add: m)
      also have "\<dots> = rev cur # split_at bullet_pattern 0 [] (rev ?tw @ c # p) ?dw"
        by (simp only: split_at_skip [OF refl])
      finally have l: "split_at bullet_pattern 0 cur p s
            = rev cur # split_at bullet_pattern 0 [] (rev ?tw @ c # p) ?dw"
        using Cons by simp
      have "split_on_delimiters (cur @ w) (c # cs)
            = rev (cur @ w) # split_on_delimiters [] cs"
        using delim by simp
      also have "\<dots> = rev (cur @ w) # split_on_delimiters ([] @ rev ?tw) ?dw"
        using spaces_skip [of "[]" cs] by simp
      finally have r: "split_on_delimiters (cur @ w) s
            = rev (cur @ w) # split_on_delimiters ([] @ rev ?tw) ?dw"
        using Cons by simp
      have "length ?dw < length s" using len_dw [of cs] Cons by simp
      from less.hyps [OF this sp_tw, of "[]" "rev ?tw @ c # p"] head show ?thesis
        by (simp only: l r list.map)
    next
      case newline
      let ?tw2 = "takeWhile is_space r" and ?dw2 = "dropWhile is_space r"
      from match_at_newline [OF newline(3,4), of p None] obtain ms where
        m: "rmatch False bullet_pattern (p, CHR 0x0A # cs, None)
            = (rev ?tw2 @ d # rev ?tw @ CHR 0x0A # p, ?dw2, None) # ms" by blast
      have cs: "cs = (?tw @ d # ?tw2) @ ?dw2"
      proof -
        have "cs = ?tw @ ?dw" by simp
        also have "\<dots> = ?tw @ d # r" by (simp only: newline(3))
        also have "\<dots> = ?tw @ d # (?tw2 @ ?dw2)" by simp
        finally show ?thesis by simp
      qed
      have "split_at bullet_pattern 0 cur p (CHR 0x0A # cs)
            = rev cur # split_at bullet_pattern (length (?tw @ d # ?tw2)) [] (CHR 0x0A # p) cs"
        by (simp add: m add.commute)
      also have "\<dots> = rev cur # split_at bullet_pattern (length (?tw @ d # ?tw2)) []
                          (CHR 0x0A # p) ((?tw @ d # ?tw2) @ ?dw2)"
        using cs by simp
      also have "\<dots> = rev cur # split_at bullet_pattern 0 []
                          (rev (?tw @ d # ?tw2) @ CHR 0x0A # p) ?dw2"
        by (simp only: split_at_skip [OF refl])
      finally have l: "split_at bullet_pattern 0 cur p s
            = rev cur # split_at bullet_pattern 0 [] (rev (?tw @ d # ?tw2) @ CHR 0x0A # p) ?dw2"
        using Cons newline(2) by simp
      have "split_on_delimiters (cur @ w) (c # cs)
            = split_on_delimiters (c # cur @ w) cs"
        using newline(1) by simp
      also have "\<dots> = split_on_delimiters (rev ?tw @ c # cur @ w) (d # r)"
        using spaces_skip [of "c # cur @ w" cs] by (simp only: newline(3))
      also have "\<dots> = rev (rev ?tw @ c # cur @ w) # split_on_delimiters [] r"
        using newline(4) by simp
      also have "\<dots> = rev (rev ?tw @ c # cur @ w) # split_on_delimiters ([] @ rev ?tw2) ?dw2"
        using spaces_skip [of "[]" r] by simp
      finally have r: "split_on_delimiters (cur @ w) s
            = rev (rev ?tw @ c # cur @ w) # split_on_delimiters ([] @ rev ?tw2) ?dw2"
        using Cons by simp
      have "\<forall>x \<in> set (c # ?tw). is_space x"
        using newline(2) newline_is_space by (auto dest: set_takeWhileD)
      from strip_trailing [OF this, of "rev w @ rev cur"]
      have "strip (rev (rev ?tw @ c # cur @ w)) = strip (rev w @ rev cur)" by simp
      with head have h: "strip (rev (rev ?tw @ c # cur @ w)) = strip (rev cur)" by simp
      have "length ?dw2 \<le> length r" by (rule len_dw)
      moreover have "length r < length ?dw" by (simp add: newline(3))
      moreover have "length ?dw \<le> length cs" by (rule len_dw)
      ultimately have "length ?dw2 < length s" using Cons by simp
      from less.hyps [OF this sp_tw, of "[]" "rev (?tw @ d # ?tw2) @ CHR 0x0A # p"] h
      show ?thesis by (simp only: l r list.map)
    next
      case plain
      from no_match [OF plain(1), of cs p None] plain(2)
      have m: "rmatch False bullet_pattern (p, c # cs, None) = []" by blast
      have l: "split_at bullet_pattern 0 cur p s = split_at bullet_pattern 0 (c # cur) (c # p) cs"
        using Cons by (simp add: m)
      have r: "split_on_delimiters (cur @ w) s = split_on_delimiters ((c # cur) @ w) cs"
        using Cons plain(1) by simp
      have "length cs < length s" using Cons by simp
      from less.hyps [OF this w, of "c # cur" "c # p"] show ?thesis
        by (simp only: l r)
    qed
  qed
qed

lemma re_split_refines:
  "map strip (re_split bullet_pattern d) = map strip (split_on_delimiters [] d)"
  using split_at_refines [of "[]" "[]" "[]" d] by (simp add: re_split_def)

lemma blank_description: "strip d = [] \<Longrightarrow> fragments d = []"
proof -
  assume "strip d = []"
  then have a: "\<forall>x \<in> set d. is_space x" by (rule strip_empty_all_space)
  then have "\<forall>x \<in> set d. \<not> is_delimiter x" using delimiter_not_space by blast
  from split_on_delimiters_skip [OF this, of "[]" "[]"]
  have "split_on_delimiters [] d = [d]" by simp
  with \<open>strip d = []\<close> show ?thesis by (simp add: fragments_def)
qed

lemma description_texts_refines: "description_texts job = description_fragments job"
proof (cases "job ''description''")
  case None
  then show ?thesis
    by (simp add: description_texts_def description_fragments_def dict_get_def strip_Nil)
next
  case (Some v)
  show ?thesis
  proof (cases v)
    case (VStr d)
    have f: "filter (\<lambda>b. b \<noteq> [] \<and> 10 < length b) xs = filter (\<lambda>f. 10 < length f) xs" for xs :: "string list"
      by (rule filter_cong) auto
    show ?thesis
    proof (cases "strip d = []")
      case True
      with Some VStr blank_description [OF True] show ?thesis
        by (simp add: description_texts_def description_fragments_def dict_get_def)
    next
      case False
      with Some VStr show ?thesis
        by (simp add: description_texts_def description_fragments_def dict_get_def
            fragments_def f re_split_refines)
    qed
  qed (simp_all add: Some description_texts_def description_fragments_def dict_get_def)
qed

lemma string_entries_texts:
  "concat (map (\<lambda>a. case a of VStr s \<Rightarrow> (if strip s \<noteq> [] then [strip s] else []) | _ \<Rightarrow> [])
             items)
   = filter (\<lambda>t. t \<noteq> []) (map strip (string_entries items))"
proof (induction items)
  case Nil
  show ?case by simp
next
  case (Cons v vs)
  then show ?case by (cases v) simp_all
qed

lemma achievement_texts_refines: "achievement_texts job = listed_achievements job"
proof (cases "job ''achievements''")
  case None
  then show ?thesis by (simp add: achievement_texts_def listed_achievements_def dict_get_def)
next
  case (Some v)
  then show ?thesis
    by (cases v)
       (simp_all add: achievement_texts_def listed_achievements_def dict_get_def
          string_entries_texts)
qed

lemma create_claim_text_type:
  "claim_text (create_claim_from_text t ty job) = t"
  "claim_type (create_claim_from_text t ty job) = ty"
  by (simp_all add: create_claim_from_text_def split_def Let_def)

lemma create_claim_ignores_job:
  "create_claim_from_text t ty job = create_claim_from_text t ty Map.empty"
  by (simp add: create_claim_from_text_def)

lemma job_claims_sources:
  "job_claims job = map (\<lambda>t. create_claim_from_text t ''achievement'' Map.empty) (both_sources job)"
  by (simp add: job_claims_def both_sources_def achievement_texts_refines
      description_texts_refines create_claim_ignores_job [of _ _ job])

lemma all_claims_sources:
  "concat (map job_claims jobs)
   = map (\<lambda>t. create_claim_from_text t ''achievement'' Map.empty) (concat (map both_sources jobs))"
  by (induction jobs) (simp_all add: job_claims_sources)

lemma extract_resume_claims_nonempty:
  assumes "concat (map job_claims (work_experience r)) \<noteq> []"
  shows "extract_resume_claims r = concat (map job_claims (work_experience r))"
proof -
  define claims where "claims = concat (map job_claims (work_experience r))"
  with assms have "claims \<noteq> []" by simp
  then show ?thesis
    unfolding extract_resume_claims_def Let_def claims_def [symmetric] by simp
qed

lemma extract_resume_claims_empty:
  assumes "concat (map job_claims (work_experience r)) = []"
  shows "extract_resume_claims r
         = map skill_claim (filter (\<lambda>s. s \<noteq> [] \<and> strip s \<noteq> []) (take 5 (skills r)))"
proof -
  define claims where "claims = concat (map job_claims (work_experience r))"
  with assms have "claims = []" by simp
  then show ?thesis
    unfolding extract_resume_claims_def Let_def claims_def [symmetric] by simp
qed

lemma nonblank_filter:
  "filter (\<lambda>s. s \<noteq> [] \<and> strip s \<noteq> []) xs = filter (\<lambda>s. strip s \<noteq> []) xs"
  by (rule filter_cong) (auto simp add: strip_Nil)

lemma extract_resume_claims_sources:
  "extract_resume_claims r =
     (if concat (map both_sources (work_experience r)) \<noteq> [] then
        map (\<lambda>t. create_claim_from_text t ''achievement'' Map.empty)
          (concat (map both_sources (work_experience r)))
      else map skill_claim (filter (\<lambda>s. strip s \<noteq> []) (take 5 (skills r))))"
proof (cases "concat (map both_sources (work_experience r)) = []")
  case True
  then have "concat (map job_claims (work_experience r)) = []"
    by (simp only: all_claims_sources) simp
  from extract_resume_claims_empty [OF this] True show ?thesis
    by (simp only: nonblank_filter) simp
next
  case False
  then have "concat (map job_claims (work_experience r)) \<noteq> []"
    by (simp only: all_claims_sources) simp
  from extract_resume_claims_nonempty [OF this] False show ?thesis
    by (simp only: all_claims_sources) simp
qed

lemma two_source_texts:
  "listed_achievements (hd (work_experience two_source_resume)) = [''Built the billing system'']"
  "description_fragments (hd (work_experience two_source_resume)) = [''Developed internal tools'']"
  by (simp_all add: two_source_resume_def listed_achievements_def description_fragments_def
      fragments_def is_delimiter_def bullet_def strip_def is_space_def)

lemma bulleted_texts:
  "both_sources (hd (work_experience bulleted_resume))
   = [''Shipped the payments API'', ''Mentored two engineers'', ''Reduced build times'']"
  by (simp add: bulleted_resume_def bulleted_description_def both_sources_def
      listed_achievements_def description_fragments_def
      fragments_def is_delimiter_def bullet_def strip_def is_space_def)

text \<open>
  Claim C5, as stated, fails: a job with both an achievements list and a description
  yields a claim from each, where the description would be consulted only for want of
  achievements.
\<close>

theorem claim_sources_counterexample:
  "map claim_text (extract_resume_claims two_source_resume)
     = [''Built the billing system'', ''Developed internal tools'']
   \<and> concat (map preferred_source (work_experience two_source_resume))
     = [''Built the billing system'']"
proof -
  have w: "work_experience two_source_resume = [hd (work_experience two_source_resume)]"
    by (simp add: two_source_resume_def)
  have b: "concat (map both_sources (work_experience two_source_resume))
           = [''Built the billing system'', ''Developed internal tools'']"
    by (subst w) (simp add: both_sources_def two_source_texts)
  have p: "concat (map preferred_source (work_experience two_source_resume))
           = [''Built the billing system'']"
    by (subst w) (simp add: preferred_source_def two_source_texts)
  have "map claim_text (extract_resume_claims two_source_resume)
        = [''Built the billing system'', ''Developed internal tools'']"
    by (simp only: extract_resume_claims_sources b)
       (simp add: create_claim_text_type)
  with p show ?thesis by simp
qed

text \<open>
  Claim C5, amended. The claims come from the jobs in order, each job giving first the
  entries of its achievements list that are strings and not blank, stripped, and then, also
  when it has achievements, the pieces of its description between the delimiter characters
  (the bullet, \<open>-\<close>, \<open>*\<close>), stripped, that are longer than 10 characters; each text becomes
  a claim of type \<open>achievement\<close>. Only if no text is found at all are the first 5 skills,
  the blank ones left out, turned into claims \<open>Proficient in ...\<close> of type \<open>skill\<close> with
  defensibility 0.5, depth \<open>surface\<close>, consistency risk \<open>medium\<close> and no evidence.
\<close>

theorem claim_sources:
  "extract_resume_claims r =
     (if concat (map both_sources (work_experience r)) \<noteq> [] then
        map (\<lambda>t. create_claim_from_text t ''achievement'' Map.empty)
          (concat (map both_sources (work_experience r)))
      else
        map (\<lambda>s. \<lparr>claim_text = ''Proficient in '' @ s, claim_type = ''skill'',
                  defensibility_score = 0.5, depth_indicator = ''surface'',
                  consistency_risk = Some ''medium'', supporting_evidence = []\<rparr>)
          (filter (\<lambda>s. strip s \<noteq> []) (take 5 (skills r))))
   \<and> map claim_text (extract_resume_claims r) =
     (if concat (map both_sources (work_experience r)) \<noteq> [] then
        concat (map both_sources (work_experience r))
      else map (\<lambda>s. ''Proficient in '' @ s) (filter (\<lambda>s. strip s \<noteq> []) (take 5 (skills r))))
   \<and> (\<forall>c \<in> set (extract_resume_claims r).
         claim_type c = (if concat (map both_sources (work_experience r)) \<noteq> []
                         then ''achievement'' else ''skill''))"
proof -
  have s: "skill_claim = (\<lambda>s. \<lparr>claim_text = ''Proficient in '' @ s, claim_type = ''skill'',
                  defensibility_score = 0.5, depth_indicator = ''surface'',
                  consistency_risk = Some ''medium'', supporting_evidence = []\<rparr>)"
    by (rule ext) (simp add: skill_claim_def)
  have t: "map claim_text (map (\<lambda>t. create_claim_from_text t ''achievement'' Map.empty) ts) = ts"
    for ts
    by (induction ts) (simp_all add: create_claim_text_type)
  have a: "\<forall>c \<in> set (map (\<lambda>t. create_claim_from_text t ''achievement'' Map.empty) ts).
             claim_type c = ''achievement''" for ts
    by (simp add: create_claim_text_type)
  show ?thesis
  proof (cases "concat (map both_sources (work_experience r)) = []")
    case True
    then have "extract_resume_claims r
               = map skill_claim (filter (\<lambda>s. strip s \<noteq> []) (take 5 (skills r)))"
      by (simp only: extract_resume_claims_sources) simp
    with True show ?thesis by (simp add: s o_def)
  next
    case False
    then have e: "extract_resume_claims r
               = map (\<lambda>t. create_claim_from_text t ''achievement'' Map.empty)
                   (concat (map both_sources (work_experience r)))"
      by (simp only: extract_resume_claims_sources) simp
    from False t [of "concat (map both_sources (work_experience r))"]
      a [of "concat (map both_sources (work_experience r))"]
    show ?thesis by (simp only: e) simp
  qed
qed

theorem claim_sources_witness:
  "map claim_text (extract_resume_claims bulleted_resume)
     = [''Shipped the payments API'', ''Mentored two engineers'', ''Reduced build times'']
   \<and> map claim_type (extract_resume_claims bulleted_resume)
     = [''achievement'', ''achievement'', ''achievement'']
   \<and> map claim_text (extract_resume_claims skills_only_resume)
     = [''Proficient in Python'', ''Proficient in SQL'', ''Proficient in Go'',
        ''Proficient in Rust'']
   \<and> map claim_type (extract_resume_claims skills_only_resume)
     = [''skill'', ''skill'', ''skill'', ''skill'']
   \<and> map defensibility_score (extract_resume_claims skills_only_resume)
     = [0.5, 0.5, 0.5, 0.5]
   \<and> map consistency_risk (extract_resume_claims skills_only_resume)
     = [Some ''medium'', Some ''medium'', Some ''medium'', Some ''medium'']"
proof -
  have w: "work_experience bulleted_resume = [hd (work_experience bulleted_resume)]"
    by (simp add: bulleted_resume_def)
  have b: "concat (map both_sources (work_experience bulleted_resume))
           = [''Shipped the payments API'', ''Mentored two engineers'', ''Reduced build times'']"
    by (subst w) (simp add: bulleted_texts)
  have e: "concat (map both_sources (work_experience skills_only_resume)) = []"
    by (simp add: skills_only_resume_def)
  have f: "filter (\<lambda>s. strip s \<noteq> []) (take 5 (skills skills_only_resume))
           = [''Python'', ''SQL'', ''Go'', ''Rust'']"
    by (simp add: skills_only_resume_def strip_def is_space_def)
  note c1 = claim_sources [of bulleted_resume]
  note c2 = claim_sources [of skills_only_resume]
  from c1 [THEN conjunct1]
  have 1: "extract_resume_claims bulleted_resume
     = map (\<lambda>t. create_claim_from_text t ''achievement'' Map.empty)
         [''Shipped the payments API'', ''Mentored two engineers'', ''Reduced build times'']"
    by (simp only: b) simp
  from c2 [THEN conjunct1]
  have 2: "extract_resume_claims skills_only_resume
     = map (\<lambda>s. \<lparr>claim_text = ''Proficient in '' @ s, claim_type = ''skill'',
                  defensibility_score = 0.5, depth_indicator = ''surface'',
                  consistency_risk = Some ''medium'', supporting_evidence = []\<rparr>)
         [''Python'', ''SQL'', ''Go'', ''Rust'']"
    by (simp only: e f) simp
  show ?thesis
    by (simp only: 1 2) (simp add: create_claim_text_type)
qed

section \<open>Interview evaluator: quantified claims\<close>

lemma metrics_defensibility:
  "has_metrics text \<Longrightarrow> evaluate_defensibility text = (0.9, ''deep'')"
  by (simp add: evaluate_defensibility_def)

lemma metrics_claim_fields:
  assumes "has_metrics text"
  shows "defensibility_score (create_claim_from_text text ctype job) = 0.9"
    and "depth_indicator (create_claim_from_text text ctype job) = ''deep''"
    and "consistency_risk (create_claim_from_text text ctype job) = None"
    and "claim_text (create_claim_from_text text ctype job) = text"
  using assms
  by (simp_all add: create_claim_from_text_def metrics_defensibility assess_consistency_risk_def)

lemma no_risk_no_questions: "consistency_risk c = None \<Longrightarrow> claim_questions c = []"
  by (simp add: claim_questions_def)

lemma claim_origin:
  assumes "c \<in> set (extract_resume_claims r)"
  shows "(\<exists>t job. c = create_claim_from_text t ''achievement'' job) \<or> (\<exists>s. c = skill_claim s)"
proof -
  have j: "\<exists>t. x = create_claim_from_text t ''achievement'' job" if "x \<in> set (job_claims job)"
    for x job
    using that by (auto simp add: job_claims_def)
  define claims where "claims = concat (map job_claims (work_experience r))"
  have a: "\<exists>t job. x = create_claim_from_text t ''achievement'' job" if "x \<in> set claims" for x
  proof -
    from that obtain job where "x \<in> set (job_claims job)" unfolding claims_def by auto
    from j [OF this] show ?thesis by blast
  qed
  from assms have "c \<in> set claims
      \<or> c \<in> set (map skill_claim (filter (\<lambda>s. s \<noteq> [] \<and> strip s \<noteq> []) (take 5 (skills r))))"
    unfolding extract_resume_claims_def Let_def claims_def [symmetric]
    by (simp split: if_splits)
  with a show ?thesis by auto
qed

lemma skill_claim_fields:
  "claim_type (skill_claim s) = ''skill''"
  "claim_text (skill_claim s) = ''Proficient in '' @ s"
  "defensibility_score (skill_claim s) = 0.5"
  "depth_indicator (skill_claim s) = ''surface''"
  "consistency_risk (skill_claim s) = Some ''medium''"
  "supporting_evidence (skill_claim s) = []"
  by (simp_all add: skill_claim_def)

lemma skill_claim_questions: "length (claim_questions (skill_claim s)) = 2"
  by (simp add: claim_questions_def skill_claim_def)

lemma sales_claim_has_metrics: "has_metrics sales_claim"
  unfolding sales_claim_def by code_simp

lemma benefits_claim_has_metrics: "has_metrics ''Proficient in 401k administration''"
  by code_simp

lemma evaluate_fields:
  assumes "evaluate order r fv = Inr res"
  shows "resume_claims res = extract_resume_claims r"
    and "predicted_questions res = take 10 (concat (map claim_questions (resume_claims res)))"
  using assms
  by (auto simp add: evaluate_def Let_def predict_interview_questions_def split: sum.splits)

text \<open>
  Claim C7, as stated, fails. With no work experience the skill \<open>401k administration\<close>
  becomes the claim \<open>Proficient in 401k administration\<close>, in which the quantified-metric
  pattern is found (\<open>401k\<close>); the claim has defensibility 0.5, depth \<open>surface\<close> and
  consistency risk \<open>medium\<close>, and two questions are predicted for it.
\<close>

theorem quantified_skill_claim_counterexample:
  "extract_resume_claims benefits_resume
     = [\<lparr>claim_text = ''Proficient in 401k administration'', claim_type = ''skill'',
         defensibility_score = 0.5, depth_indicator = ''surface'',
         consistency_risk = Some ''medium'', supporting_evidence = []\<rparr>]
   \<and> has_metrics ''Proficient in 401k administration''
   \<and> map question_type (predict_interview_questions (extract_resume_claims benefits_resume))
     = [''resume_deep_dive'', ''situational'']"
proof -
  have e: "extract_resume_claims benefits_resume
     = [\<lparr>claim_text = ''Proficient in 401k administration'', claim_type = ''skill'',
         defensibility_score = 0.5, depth_indicator = ''surface'',
         consistency_risk = Some ''medium'', supporting_evidence = []\<rparr>]"
    by (simp add: extract_resume_claims_def benefits_resume_def skill_claim_def strip_def
        is_space_def)
  have "map question_type (predict_interview_questions (extract_resume_claims benefits_resume))
     = [''resume_deep_dive'', ''situational'']"
    by (simp only: e) (simp add: predict_interview_questions_def claim_questions_def)
  with e benefits_claim_has_metrics show ?thesis by simp
qed

text \<open>
  Claim C7, amended. Every claim the evaluator builds from a resume text (an achievements
  entry or a piece of a description: the claims of type \<open>achievement\<close>) in which the
  quantified-metric pattern is found has defensibility 0.9, depth \<open>deep\<close> and no
  consistency risk, and no question is predicted for it; the predicted questions of the
  result are the first ten of those the claims give rise to. A claim made from a skill
  keeps its fixed 0.5, \<open>surface\<close> and \<open>medium\<close> whatever its text. The sales claim of the
  specification is such a text.
\<close>

theorem quantified_claim_is_defensible:
  "(\<forall>c \<in> set (extract_resume_claims r).
      claim_type c = ''achievement'' \<and> has_metrics (claim_text c) \<longrightarrow>
        defensibility_score c = 0.9 \<and> depth_indicator c = ''deep''
        \<and> consistency_risk c = None \<and> claim_questions c = [])
   \<and> (\<forall>c \<in> set (extract_resume_claims r).
        claim_type c \<noteq> ''achievement'' \<longrightarrow>
          claim_type c = ''skill'' \<and> defensibility_score c = 0.5
          \<and> depth_indicator c = ''surface'' \<and> consistency_risk c = Some ''medium'')
   \<and> (has_metrics text \<longrightarrow>
        evaluate_defensibility text = (0.9, ''deep'')
        \<and> defensibility_score (create_claim_from_text text ctype job) = 0.9
        \<and> depth_indicator (create_claim_from_text text ctype job) = ''deep''
        \<and> consistency_risk (create_claim_from_text text ctype job) = None
        \<and> claim_questions (create_claim_from_text text ctype job) = [])
   \<and> (\<forall>res. evaluate order r fv = Inr res \<longrightarrow>
        resume_claims res = extract_resume_claims r
        \<and> predicted_questions res
          = take 10 (concat (map claim_questions (extract_resume_claims r))))"
proof -
  have a: "defensibility_score c = 0.9 \<and> depth_indicator c = ''deep''
        \<and> consistency_risk c = None \<and> claim_questions c = []"
    if c: "c \<in> set (extract_resume_claims r)" and t: "claim_type c = ''achievement''"
      and m: "has_metrics (claim_text c)" for c
  proof -
    from claim_origin [OF c] t obtain x job where x: "c = create_claim_from_text x ''achievement'' job"
      by (auto simp add: skill_claim_fields)
    with m have "has_metrics x" by (simp add: create_claim_from_text_def split_def Let_def)
    from metrics_claim_fields [OF this, of "''achievement''" job] x show ?thesis
      by (simp add: no_risk_no_questions)
  qed
  have b: "claim_type c = ''skill'' \<and> defensibility_score c = 0.5
          \<and> depth_indicator c = ''surface'' \<and> consistency_risk c = Some ''medium''"
    if c: "c \<in> set (extract_resume_claims r)" and t: "claim_type c \<noteq> ''achievement''" for c
  proof -
    from claim_origin [OF c] t obtain s where "c = skill_claim s"
      by (auto simp add: create_claim_from_text_def split_def Let_def)
    then show ?thesis by (simp add: skill_claim_fields)
  qed
  have c: "evaluate_defensibility text = (0.9, ''deep'')
        \<and> defensibility_score (create_claim_from_text text ctype job) = 0.9
        \<and> depth_indicator (create_claim_from_text text ctype job) = ''deep''
        \<and> consistency_risk (create_claim_from_text text ctype job) = None
        \<and> claim_questions (create_claim_from_text text ctype job) = []" if m: "has_metrics text"
    using metrics_claim_fields [OF m, of ctype job] metrics_defensibility [OF m]
    by (simp add: no_risk_no_questions)
  have d: "resume_claims res = extract_resume_claims r
        \<and> predicted_questions res
          = take 10 (concat (map claim_questions (extract_resume_claims r)))"
    if "evaluate order r fv = Inr res" for res
    using evaluate_fields [OF that] by simp
  from a b c d show ?thesis by blast
qed

theorem quantified_claim_is_defensible_witness:
  "map claim_text (extract_resume_claims sales_resume)
     = [''Increased sales by 30% through targeted outreach'']
   \<and> has_metrics ''Increased sales by 30% through targeted outreach''
   \<and> map claim_type (extract_resume_claims sales_resume) = [''achievement'']
   \<and> map defensibility_score (extract_resume_claims sales_resume) = [0.9]
   \<and> map depth_indicator (extract_resume_claims sales_resume) = [''deep'']
   \<and> map consistency_risk (extract_resume_claims sales_resume) = [None]
   \<and> map claim_questions (extract_resume_claims sales_resume) = [[]]"
proof -
  have e: "extract_resume_claims sales_resume
           = [create_claim_from_text sales_claim ''achievement''
                [''achievements'' \<mapsto> VList [VStr sales_claim]]]"
    by (simp add: extract_resume_claims_def sales_resume_def job_claims_def
        achievement_texts_def description_texts_def dict_get_def sales_claim_def strip_def
        is_space_def)
  let ?c = "create_claim_from_text sales_claim ''achievement''
              [''achievements'' \<mapsto> VList [VStr sales_claim]]"
  have t: "claim_text ?c = sales_claim" "claim_type ?c = ''achievement''"
    by (simp_all add: create_claim_from_text_def split_def Let_def)
  from quantified_claim_is_defensible [of sales_resume sales_claim "''achievement''" Map.empty id
      new_feature_vector]
  have "defensibility_score ?c = 0.9 \<and> depth_indicator ?c = ''deep''
        \<and> consistency_risk ?c = None \<and> claim_questions ?c = []"
    using sales_claim_has_metrics t by (simp only: e) simp
  with t sales_claim_has_metrics show ?thesis
    by (simp only: e) (simp add: sales_claim_def)
qed

section \<open>Interview evaluator: the order of a set\<close>

lemma risks_order_elsewhere:
  "map_sum id (map (\<lambda>k. (risk_type k, cr_severity k, cr_related_claim k, mitigation_suggestion k)))
     (identify_consistency_risks order1 r claims)
   = map_sum id (map (\<lambda>k. (risk_type k, cr_severity k, cr_related_claim k, mitigation_suggestion k)))
       (identify_consistency_risks order2 r claims)"
  by (cases "skills_in_experience (skills r) (work_experience r) []")
     (simp_all add: identify_consistency_risks_def Let_def)

lemma risk_deduction_severity:
  "sum_list (map risk_deduction ks) = sum_list (map (\<lambda>s. if s = ''high'' then 10
      else if s = ''medium'' then 5 else if s = ''low'' then 2 else 0) (map cr_severity ks))"
  by (induction ks) (simp_all add: risk_deduction_def)

lemma evaluate_order_elsewhere:
  "map_sum id (\<lambda>res. (readiness_score res, resume_claims res, predicted_questions res,
                       map risk_type (consistency_risks res),
                       map cr_severity (consistency_risks res)))
     (evaluate order1 r fv)
   = map_sum id (\<lambda>res. (readiness_score res, resume_claims res, predicted_questions res,
                         map risk_type (consistency_risks res),
                         map cr_severity (consistency_risks res)))
       (evaluate order2 r fv)"
proof -
  let ?c = "extract_resume_claims r"
  note e = risks_order_elsewhere [of order1 r ?c order2]
  show ?thesis
  proof (cases "identify_consistency_risks order1 r ?c")
    case (Inl a)
    with e obtain b where "identify_consistency_risks order2 r ?c = Inl b" "a = b"
      by (cases "identify_consistency_risks order2 r ?c") simp_all
    with Inl show ?thesis by (simp add: evaluate_def Let_def)
  next
    case (Inr ks)
    with e obtain ks' where k: "identify_consistency_risks order2 r ?c = Inr ks'"
      and m: "map (\<lambda>k. (risk_type k, cr_severity k, cr_related_claim k, mitigation_suggestion k)) ks
              = map (\<lambda>k. (risk_type k, cr_severity k, cr_related_claim k, mitigation_suggestion k)) ks'"
      by (cases "identify_consistency_risks order2 r ?c") simp_all
    from m have "map fst (map (\<lambda>k. (risk_type k, cr_severity k, cr_related_claim k, mitigation_suggestion k)) ks)
              = map fst (map (\<lambda>k. (risk_type k, cr_severity k, cr_related_claim k, mitigation_suggestion k)) ks')"
      by simp
    then have t: "map risk_type ks = map risk_type ks'" by (simp add: o_def)
    from m have "map (fst \<circ> snd) (map (\<lambda>k. (risk_type k, cr_severity k, cr_related_claim k, mitigation_suggestion k)) ks)
              = map (fst \<circ> snd) (map (\<lambda>k. (risk_type k, cr_severity k, cr_related_claim k, mitigation_suggestion k)) ks')"
      by simp
    then have s: "map cr_severity ks = map cr_severity ks'" by (simp add: o_def)
    from Inr k t s show ?thesis
      by (simp add: evaluate_def Let_def compute_readiness_score_def risk_deduction_severity)
  qed
qed

text \<open>
  Claim C6 fails for the interview evaluator. For a resume that lists the skills
  \<open>python\<close> and \<open>sql\<close> and no work experience, the description of the consistency risk
  names the unused skills in the order in which the set yields them: with the order of
  insertion it reads one way, with the reverse order the other, and the two results of
  the evaluator differ. Whatever the resume, the order shows in the descriptions of the
  risks only: the score, the claims, the predicted questions and the types and severities
  of the risks are the same for any two orders.
\<close>

theorem evaluate_follows_set_order:
  "map_sum id (map cr_description \<circ> consistency_risks)
     (evaluate id two_skill_resume new_feature_vector)
   = Inr [''Skills listed but not mentioned in work experience: python, sql'']
   \<and> map_sum id (map cr_description \<circ> consistency_risks)
       (evaluate rev two_skill_resume new_feature_vector)
     = Inr [''Skills listed but not mentioned in work experience: sql, python'']
   \<and> evaluate id two_skill_resume new_feature_vector
     \<noteq> evaluate rev two_skill_resume new_feature_vector
   \<and> map_sum id (\<lambda>res. (readiness_score res, resume_claims res, predicted_questions res,
                           map risk_type (consistency_risks res),
                           map cr_severity (consistency_risks res)))
         (evaluate order1 r fv)
       = map_sum id (\<lambda>res. (readiness_score res, resume_claims res, predicted_questions res,
                             map risk_type (consistency_risks res),
                             map cr_severity (consistency_risks res)))
           (evaluate order2 r fv)"
proof -
  have c: "extract_resume_claims two_skill_resume = [skill_claim ''python'', skill_claim ''sql'']"
    by (simp add: extract_resume_claims_def two_skill_resume_def strip_def is_space_def)
  have v: "vague_claim_risks [skill_claim ''python'', skill_claim ''sql''] = []"
    "overstated_risks [skill_claim ''python'', skill_claim ''sql''] = []"
    by (simp_all add: vague_claim_risks_def overstated_risks_def skill_claim_def
        broad_indicators_def lower_def lower_char_def)
  have u: "remdups (map lower (skills two_skill_resume)) = [''python'', ''sql'']"
    by (simp add: two_skill_resume_def lower_def lower_char_def)
  have k: "skills_in_experience (skills two_skill_resume) (work_experience two_skill_resume) []
           = Inr []"
    by (simp add: two_skill_resume_def)
  have a: "identify_consistency_risks order two_skill_resume
             [skill_claim ''python'', skill_claim ''sql'']
           = Inr [\<lparr>risk_type = ''skill_depth_mismatch'', cr_severity = ''medium'',
                   cr_description = ''Skills listed but not mentioned in work experience: ''
                                    @ join '', '' (take 3 (order [''python'', ''sql''])),
                   cr_related_claim = None,
                   mitigation_suggestion =
                     Some ''Be prepared to explain how you used these skills in your work.''\<rparr>]"
    for order
    by (simp add: identify_consistency_risks_def k u v Let_def)
  have 1: "map_sum id (map cr_description \<circ> consistency_risks)
     (evaluate id two_skill_resume new_feature_vector)
   = Inr [''Skills listed but not mentioned in work experience: python, sql'']"
    by (simp add: evaluate_def c a Let_def)
  have 2: "map_sum id (map cr_description \<circ> consistency_risks)
       (evaluate rev two_skill_resume new_feature_vector)
     = Inr [''Skills listed but not mentioned in work experience: sql, python'']"
    by (simp add: evaluate_def c a Let_def)
  from 1 2 have "evaluate id two_skill_resume new_feature_vector
     \<noteq> evaluate rev two_skill_resume new_feature_vector"
    by auto
  with 1 2 evaluate_order_elsewhere [of order1 r fv order2] show ?thesis by blast
qed

end
